theory Spec2Isabelle
  imports Main "HOL-Library.Sublist" "HOL-Library.List_Lexorder"
begin

section \<open>Text: Python strings as lists of code points\<close>

text \<open>
  A Python \<open>str\<close> is a sequence of Unicode code points, so a string is modelled as a
  list of natural numbers. \<open>ascii\<close> reads an ASCII literal; a letter beyond ASCII is
  written as its code point (\<open>0xF1\<close> is n with tilde, \<open>0xED\<close> is i with acute,
  \<open>0xF3\<close> is o with acute), precomposed as in the source file.
\<close>

type_synonym ustring = "nat list"

definition ascii :: "string \<Rightarrow> ustring" where
  "ascii s = map of_char s"

text \<open>
  A cell of a pandas table is text or missing (\<open>None\<close>, or the float \<open>NaN\<close> that
  pandas stores for an absent value). A numeric cell of the default parse is represented
  by its \<open>str()\<close> text, which is what every consumer below reads.
\<close>

datatype pyval = PyNone | NaN | Str ustring

text \<open>\<open>str(v)\<close> of a cell.\<close>

fun str_of :: "pyval \<Rightarrow> ustring" where
  "str_of PyNone = ascii ''None''"
| "str_of NaN = ascii ''nan''"
| "str_of (Str s) = s"

text \<open>\<open>pd.isna\<close> on a cell, as \<open>dropna\<close> uses it.\<close>

fun isna :: "pyval \<Rightarrow> bool" where
  "isna (Str s) = False"
| "isna v = True"

subsection \<open>The Unicode tables the program reads\<close>


definition isspace :: "nat \<Rightarrow> bool" where
  "isspace c \<longleftrightarrow>
     (0x09 \<le> c \<and> c \<le> 0x0D) \<or> (0x1C \<le> c \<and> c \<le> 0x20) \<or> c = 0x85 \<or> c = 0xA0 \<or>
     c = 0x1680 \<or> (0x2000 \<le> c \<and> c \<le> 0x200A) \<or> c = 0x2028 \<or> c = 0x2029 \<or>
     c = 0x202F \<or> c = 0x205F \<or> c = 0x3000"

definition is_Mn :: "nat \<Rightarrow> bool" where
  "is_Mn c \<longleftrightarrow> 0x300 \<le> c \<and> c \<le> 0x36F"

text \<open>
  The decimal digits (general category \<open>Nd\<close>, what \<open>\d\<close> matches and \<open>int\<close>
  and \<open>float\<close> read): in Unicode 14 they come in 66 runs of ten consecutive code
  points, each run the digits 0 to 9 of one script. The table lists the zero of each run.
\<close>

definition digit_zeros :: "nat list" where
  "digit_zeros =
    [0x30, 0x660, 0x6F0, 0x7C0, 0x966, 0x9E6, 0xA66, 0xAE6, 0xB66, 0xBE6, 0xC66, 0xCE6,
     0xD66, 0xDE6, 0xE50, 0xED0, 0xF20, 0x1040, 0x1090, 0x17E0, 0x1810, 0x1946, 0x19D0,
     0x1A80, 0x1A90, 0x1B50, 0x1BB0, 0x1C40, 0x1C50, 0xA620, 0xA8D0, 0xA900, 0xA9D0,
     0xA9F0, 0xAA50, 0xABF0, 0xFF10, 0x104A0, 0x10D30, 0x11066, 0x110F0, 0x11136, 0x111D0,
     0x112F0, 0x11450, 0x114D0, 0x11650, 0x116C0, 0x11730, 0x118E0, 0x11950, 0x11C50,
     0x11D50, 0x11DA0, 0x16A60, 0x16AC0, 0x16B50, 0x1D7CE, 0x1D7D8, 0x1D7E2, 0x1D7EC,
     0x1D7F6, 0x1E140, 0x1E2F0, 0x1E950, 0x1FBF0]"

definition is_digit :: "nat \<Rightarrow> bool" where
  "is_digit c \<longleftrightarrow> list_ex (\<lambda>z. z \<le> c \<and> c \<le> z + 9) digit_zeros"

definition digit_value :: "nat \<Rightarrow> nat" where
  "digit_value c =
     (case find (\<lambda>z. z \<le> c \<and> c \<le> z + 9) digit_zeros of Some z \<Rightarrow> c - z | None \<Rightarrow> 0)"

definition lower_cp :: "nat \<Rightarrow> ustring" where
  "lower_cp c =
     (if 0x41 \<le> c \<and> c \<le> 0x5A then [c + 0x20]
      else if 0xC0 \<le> c \<and> c \<le> 0xDE \<and> c \<noteq> 0xD7 then [c + 0x20]
      else [c])"

definition upper_cp :: "nat \<Rightarrow> ustring" where
  "upper_cp c =
     (if 0x61 \<le> c \<and> c \<le> 0x7A then [c - 0x20]
      else if 0xE0 \<le> c \<and> c \<le> 0xFE \<and> c \<noteq> 0xF7 then [c - 0x20]
      else if c = 0xDF then [0x53, 0x53]
      else if c = 0xFF then [0x178]
      else if c = 0xB5 then [0x39C]
      else if c = 0x345 then [0x399]
      else [c])"

definition decomposition_table :: "(nat \<times> ustring) list" where
  "decomposition_table =
    [(0xC0, [0x41, 0x300]), (0xC1, [0x41, 0x301]), (0xC2, [0x41, 0x302]), (0xC3, [0x41, 0x303]),
     (0xC4, [0x41, 0x308]), (0xC5, [0x41, 0x30A]), (0xC7, [0x43, 0x327]), (0xC8, [0x45, 0x300]),
     (0xC9, [0x45, 0x301]), (0xCA, [0x45, 0x302]), (0xCB, [0x45, 0x308]), (0xCC, [0x49, 0x300]),
     (0xCD, [0x49, 0x301]), (0xCE, [0x49, 0x302]), (0xCF, [0x49, 0x308]), (0xD1, [0x4E, 0x303]),
     (0xD2, [0x4F, 0x300]), (0xD3, [0x4F, 0x301]), (0xD4, [0x4F, 0x302]), (0xD5, [0x4F, 0x303]),
     (0xD6, [0x4F, 0x308]), (0xD9, [0x55, 0x300]), (0xDA, [0x55, 0x301]), (0xDB, [0x55, 0x302]),
     (0xDC, [0x55, 0x308]), (0xDD, [0x59, 0x301]), (0xE0, [0x61, 0x300]), (0xE1, [0x61, 0x301]),
     (0xE2, [0x61, 0x302]), (0xE3, [0x61, 0x303]), (0xE4, [0x61, 0x308]), (0xE5, [0x61, 0x30A]),
     (0xE7, [0x63, 0x327]), (0xE8, [0x65, 0x300]), (0xE9, [0x65, 0x301]), (0xEA, [0x65, 0x302]),
     (0xEB, [0x65, 0x308]), (0xEC, [0x69, 0x300]), (0xED, [0x69, 0x301]), (0xEE, [0x69, 0x302]),
     (0xEF, [0x69, 0x308]), (0xF1, [0x6E, 0x303]), (0xF2, [0x6F, 0x300]), (0xF3, [0x6F, 0x301]),
     (0xF4, [0x6F, 0x302]), (0xF5, [0x6F, 0x303]), (0xF6, [0x6F, 0x308]), (0xF9, [0x75, 0x300]),
     (0xFA, [0x75, 0x301]), (0xFB, [0x75, 0x302]), (0xFC, [0x75, 0x308]), (0xFD, [0x79, 0x301]),
     (0xFF, [0x79, 0x308]), (0x340, [0x300]), (0x341, [0x301]), (0x343, [0x313]),
     (0x344, [0x308, 0x301])]"

definition decompose_cp :: "nat \<Rightarrow> ustring" where
  "decompose_cp c = (case map_of decomposition_table c of Some d \<Rightarrow> d | None \<Rightarrow> [c])"

subsection \<open>String methods\<close>

text \<open>\<open>s.strip()\<close>: whitespace is removed from both ends.\<close>

definition strip :: "ustring \<Rightarrow> ustring" where
  "strip s = rev (dropWhile isspace (rev (dropWhile isspace s)))"

definition lower :: "ustring \<Rightarrow> ustring" where
  "lower s = concat (map lower_cp s)"

definition upper :: "ustring \<Rightarrow> ustring" where
  "upper s = concat (map upper_cp s)"

text \<open>\<open>s.replace("\u00A0", " ")\<close>: every no-break space becomes a space.\<close>

definition replace_nbsp :: "ustring \<Rightarrow> ustring" where
  "replace_nbsp s = map (\<lambda>c. if c = 0xA0 then 0x20 else c) s"

text \<open>
  \<open>unicodedata.normalize("NFD", s)\<close>: every code point is replaced by its canonical
  decomposition. The canonical reordering that follows only permutes neighbouring
  combining marks; in the modelled range each of them has category \<open>Mn\<close>, and the only
  caller removes those in its next line, so the reordering is not modelled.
\<close>

definition normalize_NFD :: "ustring \<Rightarrow> ustring" where
  "normalize_NFD s = concat (map decompose_cp s)"

text \<open>\<open>re.sub(r"\s+", " ", s)\<close>: each maximal run of whitespace becomes one space.\<close>

function collapse_ws :: "ustring \<Rightarrow> ustring" where
  "collapse_ws [] = []"
| "collapse_ws (c # cs) =
     (if isspace c then 0x20 # collapse_ws (dropWhile isspace cs) else c # collapse_ws cs)"
  by pat_completeness auto
termination
  by (relation "measure length") (auto simp: length_dropWhile_le less_Suc_eq_le)

text \<open>\<open>p in s\<close> on strings: \<open>p\<close> occurs in \<open>s\<close> as a contiguous substring.\<close>

fun py_in :: "ustring \<Rightarrow> ustring \<Rightarrow> bool" where
  "py_in p [] = (p = [])"
| "py_in p (c # cs) = (prefix p (c # cs) \<or> py_in p cs)"

section \<open>Constants and the text normalizer\<close>

definition PROGRAM_PATTERNS :: "ustring list" where
  "PROGRAM_PATTERNS = [ascii ''programa'']"

definition YEAR_PATTERNS :: "ustring list" where
  "YEAR_PATTERNS =
    [ascii ''a'' @ [0xF1] @ ascii ''oegreso'',
     ascii ''a'' @ [0xF1] @ ascii ''o egreso'',
     ascii ''anoegreso'',
     ascii ''ano egreso'',
     ascii ''a'' @ [0xF1] @ ascii ''o de egreso'',
     ascii ''ano de egreso'']"

text \<open>
  \<open>norm\<close> on a string argument, inside out: \<open>replace\<close>, \<open>strip\<close> and \<open>lower\<close>
  (line 57), NFD (line 58), the removal of category \<open>Mn\<close> (line 59), the collapse of
  whitespace runs (line 60).
\<close>

definition norm_str :: "ustring \<Rightarrow> ustring" where
  "norm_str s =
     collapse_ws (filter (\<lambda>ch. \<not> is_Mn ch) (normalize_NFD (lower (strip (replace_nbsp s)))))"

fun norm :: "pyval \<Rightarrow> ustring" where
  "norm PyNone = []"
| "norm NaN = []"
| "norm (Str s) = norm_str s"

section \<open>Benefits bucketing\<close>

text \<open>
  \<open>normalize_beneficios\<close>: the chain of \<open>if\<close> statements that follows the early
  return for an empty normalized text. \<open>t\<close> is \<open>norm(texto)\<close>; three tests read
  \<open>texto.lower()\<close> instead, with the accented spelling.
\<close>

definition beneficios_chain :: "ustring \<Rightarrow> ustring \<Rightarrow> ustring" where
  "beneficios_chain t texto =
     (if py_in (ascii ''no aplica'') t
         \<or> py_in (ascii ''ninguno'') t
         \<or> py_in (ascii ''ningun '') t
         \<or> py_in (ascii ''ninguno por el momento'') t
         \<or> py_in (ascii ''no tengo conocimiento'') t
         \<or> py_in (ascii ''no conozco los beneficios'') t
         \<or> py_in (ascii ''no conozco los beneficios actuales'') t
      then ascii ''Ninguno / no conoce beneficios''
      else if py_in (ascii ''descuento'') t
         \<or> py_in (ascii ''caminatas ecologicas'') t
         \<or> py_in (ascii ''caminatas ecol'' @ [0xF3] @ ascii ''gicas'') (lower texto)
      then ascii ''Descuentos y beneficios econ'' @ [0xF3] @ ascii ''micos''
      else if py_in (ascii ''empleabilidad'') t
         \<or> py_in (ascii ''vinculacion laboral'') t
         \<or> py_in (ascii ''vinculaci'' @ [0xF3] @ ascii ''n laboral'') (lower texto)
         \<or> py_in (ascii ''bolsa de empleo'') t
         \<or> py_in (ascii ''vinculacion a la bolsa de empleo'') t
      then ascii ''Vinculaci'' @ [0xF3] @ ascii ''n laboral / empleabilidad''
      else if py_in (ascii ''informacion'') t
         \<or> py_in (ascii ''informaci'' @ [0xF3] @ ascii ''n'') (lower texto)
      then ascii ''Informaci'' @ [0xF3] @ ascii ''n y comunicaci'' @ [0xF3] @ ascii ''n con egresados''
      else if py_in (ascii ''actividades deportivas'') t
         \<or> py_in (ascii ''actividades culturales'') t
         \<or> py_in (ascii ''recreativas'') t
      then ascii ''Actividades deportivas, culturales y recreativas''
      else if t = ascii ''todos''
      then ascii ''Todos los beneficios''
      else strip texto)"

text \<open>
  A missing value normalizes to the empty text and returns at once, so
  \<open>texto.lower()\<close> and \<open>texto.strip()\<close> are only reached on a string.
\<close>

fun normalize_beneficios :: "pyval \<Rightarrow> ustring" where
  "normalize_beneficios PyNone = []"
| "normalize_beneficios NaN = []"
| "normalize_beneficios (Str texto) =
     (if norm_str texto = [] then [] else beneficios_chain (norm_str texto) texto)"

text \<open>
  The Benefits Bucketing Rule as the specification words it: an ordered list of
  (condition, category) rules over the normalized text \<open>t\<close> and the lower-cased original
  \<open>l\<close>, the first matching rule winning, the trimmed original text otherwise.
\<close>

definition spec_bucketing_rules :: "((ustring \<Rightarrow> ustring \<Rightarrow> bool) \<times> ustring) list" where
  "spec_bucketing_rules =
    [(\<lambda>t l. py_in (ascii ''no aplica'') t \<or> py_in (ascii ''ninguno'') t
            \<or> py_in (ascii ''ningun '') t \<or> py_in (ascii ''no tengo conocimiento'') t
            \<or> py_in (ascii ''no conozco los beneficios'') t,
      ascii ''Ninguno / no conoce beneficios''),
     (\<lambda>t l. py_in (ascii ''descuento'') t \<or> py_in (ascii ''caminatas ecologicas'') t
            \<or> py_in (ascii ''caminatas ecol'' @ [0xF3] @ ascii ''gicas'') l,
      ascii ''Descuentos y beneficios econ'' @ [0xF3] @ ascii ''micos''),
     (\<lambda>t l. py_in (ascii ''empleabilidad'') t \<or> py_in (ascii ''vinculacion laboral'') t
            \<or> py_in (ascii ''vinculaci'' @ [0xF3] @ ascii ''n laboral'') l
            \<or> py_in (ascii ''bolsa de empleo'') t,
      ascii ''Vinculaci'' @ [0xF3] @ ascii ''n laboral / empleabilidad''),
     (\<lambda>t l. py_in (ascii ''informacion'') t \<or> py_in (ascii ''informaci'' @ [0xF3] @ ascii ''n'') l,
      ascii ''Informaci'' @ [0xF3] @ ascii ''n y comunicaci'' @ [0xF3] @ ascii ''n con egresados''),
     (\<lambda>t l. py_in (ascii ''actividades deportivas'') t \<or> py_in (ascii ''actividades culturales'') t
            \<or> py_in (ascii ''recreativas'') t,
      ascii ''Actividades deportivas, culturales y recreativas''),
     (\<lambda>t l. t = ascii ''todos'', ascii ''Todos los beneficios'')]"

fun first_match :: "((ustring \<Rightarrow> ustring \<Rightarrow> bool) \<times> ustring) list \<Rightarrow> ustring \<Rightarrow> ustring \<Rightarrow> ustring option" where
  "first_match [] t l = None"
| "first_match ((cond, category) # rules) t l =
     (if cond t l then Some category else first_match rules t l)"

definition spec_bucketing :: "ustring \<Rightarrow> ustring" where
  "spec_bucketing texto =
     (if norm_str texto = [] then []
      else case first_match spec_bucketing_rules (norm_str texto) (lower texto) of
             Some category \<Rightarrow> category
           | None \<Rightarrow> strip texto)"

section \<open>Loading the table: header detection\<close>

text \<open>
  \<open>df_raw\<close> is what \<open>pd.read_csv(header=None, dtype=str, keep_default_na=False)\<close>
  returns: rows of cells. A frame has its column names and its rows; a pandas frame is
  rectangular, so a row shorter than the header reads as \<open>NaN\<close> beyond its end.
\<close>

type_synonym raw_table = "pyval list list"

record frame =
  columns :: "ustring list"
  rows :: "pyval list list"

definition cell :: "pyval list \<Rightarrow> nat \<Rightarrow> pyval" where
  "cell r i = (if i < length r then r ! i else NaN)"

definition has_prog :: "ustring list \<Rightarrow> bool" where
  "has_prog row_norm = list_ex (\<lambda>c. list_ex (\<lambda>p. py_in p c) PROGRAM_PATTERNS) row_norm"

definition has_year :: "ustring list \<Rightarrow> bool" where
  "has_year row_norm = list_ex (\<lambda>c. list_ex (\<lambda>p. py_in p c) YEAR_PATTERNS) row_norm"

text \<open>The body of the scanning loop on one row: \<open>has_prog and has_year\<close>.\<close>

definition is_header_row :: "pyval list \<Rightarrow> bool" where
  "is_header_row row = (has_prog (map norm row) \<and> has_year (map norm row))"

text \<open>\<open>for i in range(max_scan)\<close>, from \<open>i\<close> on, with its \<open>break\<close>.\<close>

function scan_rows :: "raw_table \<Rightarrow> nat \<Rightarrow> nat \<Rightarrow> nat option" where
  "scan_rows df_raw max_scan i =
     (if i < max_scan
      then (if is_header_row (df_raw ! i) then Some i else scan_rows df_raw max_scan (Suc i))
      else None)"
  by pat_completeness auto
termination
  by (relation "measure (\<lambda>(df_raw, max_scan, i). max_scan - i)") auto

declare scan_rows.simps [simp del]

definition header_row_idx :: "raw_table \<Rightarrow> nat option" where
  "header_row_idx df_raw = scan_rows df_raw (min (length df_raw) 50) 0"

text \<open>\<open>h.replace("\u00A0", " ").strip()\<close> on a header text.\<close>

definition clean_header :: "ustring \<Rightarrow> ustring" where
  "clean_header h = strip (replace_nbsp h)"

text \<open>
  The second argument is the frame that the fallback \<open>pd.read_csv(csv_source)\<close> returns,
  with the first line of the file as header.
\<close>

definition load_data_with_header_detection :: "raw_table \<Rightarrow> frame \<Rightarrow> frame" where
  "load_data_with_header_detection df_raw df_default =
     (case header_row_idx df_raw of
        None \<Rightarrow> df_default\<lparr>columns := map clean_header (columns df_default)\<rparr>
      | Some i \<Rightarrow>
          \<lparr>columns = map (\<lambda>h. clean_header (str_of h)) (df_raw ! i),
           rows = drop (i + 1) df_raw\<rparr>)"

section \<open>Column classification\<close>

datatype error = KeyError "ustring list" | AttributeError | ValueError

definition is_prog_name :: "ustring \<Rightarrow> bool" where
  "is_prog_name c = list_ex (\<lambda>p. py_in p (norm_str c)) PROGRAM_PATTERNS"

definition is_year_name :: "ustring \<Rightarrow> bool" where
  "is_year_name c = list_ex (\<lambda>p. py_in p (norm_str c)) YEAR_PATTERNS"

text \<open>The loop over \<open>df.columns\<close>; the state is \<open>(prog_col, year_col)\<close>.\<close>

fun detect_loop ::
  "ustring list \<Rightarrow> ustring option \<times> ustring option \<Rightarrow> ustring option \<times> ustring option" where
  "detect_loop [] st = st"
| "detect_loop (c # cs) (prog_col, year_col) =
     detect_loop cs
       (if prog_col = None \<and> is_prog_name c then Some c else prog_col,
        if year_col = None \<and> is_year_name c then Some c else year_col)"

text \<open>The \<open>KeyError\<close> carries \<open>list(df.columns)\<close>, which its message prints.\<close>

definition detect_program_year_columns :: "frame \<Rightarrow> error + ustring \<times> ustring" where
  "detect_program_year_columns df =
     (case detect_loop (columns df) (None, None) of
        (Some prog_col, Some year_col) \<Rightarrow> Inr (prog_col, year_col)
      | _ \<Rightarrow> Inl (KeyError (columns df)))"

section \<open>Columns of a frame\<close>

text \<open>
  \<open>df[col]\<close>: a \<open>KeyError\<close> when no column has the name, the column as a Series when
  one has, and a DataFrame of all the columns of that name (with their labels) when
  several have. The header-detected frame takes its names from a raw row, so duplicates
  can occur there.
\<close>

datatype item = Series "pyval list" | DataFrame "ustring list" "pyval list list"

definition positions :: "frame \<Rightarrow> ustring \<Rightarrow> nat list" where
  "positions df col = filter (\<lambda>i. columns df ! i = col) [0..<length (columns df)]"

definition getitem :: "frame \<Rightarrow> ustring \<Rightarrow> error + item" where
  "getitem df col =
     (case positions df col of
        [] \<Rightarrow> Inl (KeyError [col])
      | [i] \<Rightarrow> Inr (Series (map (\<lambda>r. cell r i) (rows df)))
      | i # j # ks \<Rightarrow>
          Inr (DataFrame (map (\<lambda>k. col) (i # j # ks))
                 (map (\<lambda>r. map (cell r) (i # j # ks)) (rows df))))"

text \<open>\<open>pd.Series.unique\<close>: the distinct values in the order of their first occurrence.\<close>

definition unique :: "'a list \<Rightarrow> 'a list" where
  "unique xs = rev (remdups (rev xs))"

section \<open>The filters\<close>

definition ALL_PROGRAMS :: ustring where
  "ALL_PROGRAMS = ascii ''Todos los programas''"

definition ALL_YEARS :: ustring where
  "ALL_YEARS = ascii ''Todos''"

text \<open>
  The program column after \<open>.replace(["", "nan", "NaN", "NULL", "null"], pd.NA)\<close>:
  \<open>None\<close> stands for \<open>pd.NA\<close>.
\<close>

definition null_like :: "ustring list" where
  "null_like = [[], ascii ''nan'', ascii ''NaN'', ascii ''NULL'', ascii ''null'']"

definition replace_null_like :: "ustring list \<Rightarrow> ustring option list" where
  "replace_null_like s = map (\<lambda>v. if v \<in> set null_like then None else Some v) s"

text \<open>\<open>sorted(prog_series.dropna().unique().tolist())\<close>; strings compare by code points.\<close>

definition programas :: "ustring option list \<Rightarrow> ustring list" where
  "programas prog_series = sort (unique (concat (map (\<lambda>v. case v of None \<Rightarrow> [] | Some p \<Rightarrow> [p]) prog_series)))"

text \<open>
  \<open>re.search(r"(19\d{2}|20\d{2}|2100)", val)\<close>: the match at the leftmost position
  that has one; every alternative is four characters long.
\<close>

fun year_at :: "ustring \<Rightarrow> ustring option" where
  "year_at (a # b # c # d # rest) =
     (if (a = 0x31 \<and> b = 0x39 \<and> is_digit c \<and> is_digit d)
         \<or> (a = 0x32 \<and> b = 0x30 \<and> is_digit c \<and> is_digit d)
         \<or> (a = 0x32 \<and> b = 0x31 \<and> c = 0x30 \<and> d = 0x30)
      then Some [a, b, c, d] else None)"
| "year_at s = None"

fun re_search_year :: "ustring \<Rightarrow> ustring option" where
  "re_search_year [] = None"
| "re_search_year (c # cs) =
     (case year_at (c # cs) of Some y \<Rightarrow> Some y | None \<Rightarrow> re_search_year cs)"

text \<open>\<open>int(y)\<close> on a string of decimal digits.\<close>

definition int_of_digits :: "ustring \<Rightarrow> nat" where
  "int_of_digits y = foldl (\<lambda>a d. 10 * a + digit_value d) 0 y"

text \<open>
  \<open>years_raw\<close> is the year column without its missing cells, each value as trimmed
  text; \<open>years\<close> is the sorted set of the matches. Two matches of equal value,
  written with the digits of different scripts, come in the order of their first
  occurrence here; Python takes them in the iteration order of the set, and nothing below
  depends on it.
\<close>

definition years :: "ustring list \<Rightarrow> ustring list" where
  "years years_raw =
     sort_key int_of_digits
       (unique (concat (map (\<lambda>val. case re_search_year val of None \<Rightarrow> [] | Some y \<Rightarrow> [y]) years_raw)))"

text \<open>
  The mask of one row, from its entry of \<open>prog_series\<close> and its year cell.
  \<open>prog_series.eq(programa_sel)\<close> is false on \<open>pd.NA\<close>. \<open>years_raw\<close> has no entry
  for a row whose year cell is missing, and the aligned \<open>&\<close> reads the absent entry as
  false. \<open>str.contains\<close> takes its argument as a regular expression; the select box
  only offers \<open>Todos\<close> and strings of four digits, and a string of digits matches
  exactly where it occurs.
\<close>

definition keep_row :: "ustring \<Rightarrow> ustring \<Rightarrow> ustring option \<Rightarrow> pyval \<Rightarrow> bool" where
  "keep_row programa_sel year_sel prog_entry year_cell =
     ((programa_sel = ALL_PROGRAMS \<or> prog_entry = Some programa_sel)
      \<and> (year_sel = ALL_YEARS
         \<or> (\<not> isna year_cell \<and> py_in year_sel (strip (str_of year_cell)))))"

text \<open>\<open>df[mask]\<close>: the rows whose mask is true, in their order.\<close>

definition filter_rows ::
  "ustring \<Rightarrow> ustring \<Rightarrow> ustring option list \<Rightarrow> pyval list \<Rightarrow> pyval list list \<Rightarrow> pyval list list" where
  "filter_rows programa_sel year_sel prog_series year_cells rs =
     map snd
       (filter (\<lambda>((p, y), r). keep_row programa_sel year_sel p y)
          (zip (zip prog_series year_cells) rs))"

text \<open>The option lists of the two select boxes.\<close>

definition opciones_prog :: "pyval list \<Rightarrow> ustring list" where
  "opciones_prog prog_cells =
     ALL_PROGRAMS # programas (replace_null_like (map (\<lambda>v. strip (str_of v)) prog_cells))"

definition opciones_year :: "pyval list \<Rightarrow> ustring list" where
  "opciones_year year_cells =
     ALL_YEARS # years (map (\<lambda>v. strip (str_of v)) (filter (\<lambda>v. \<not> isna v) year_cells))"

text \<open>
  \<open>get_program_year_filters\<close>. The two select boxes are arguments: each is given its
  list of options and returns the chosen one. \<open>.str\<close> exists on a Series only, so a
  column name that occurs twice ends in an \<open>AttributeError\<close>. The result is the filtered
  frame with the two selections.
\<close>

definition get_program_year_filters ::
  "(ustring list \<Rightarrow> ustring) \<Rightarrow> (ustring list \<Rightarrow> ustring) \<Rightarrow> frame \<Rightarrow>
     error + frame \<times> ustring \<times> ustring" where
  "get_program_year_filters selectbox_programa selectbox_year df =
     (case detect_program_year_columns df of
        Inl e \<Rightarrow> Inl e
      | Inr (prog_col, year_col) \<Rightarrow>
          (case getitem df prog_col of
             Inl e \<Rightarrow> Inl e
           | Inr (DataFrame labels rs) \<Rightarrow> Inl AttributeError
           | Inr (Series prog_cells) \<Rightarrow>
               (case getitem df year_col of
                  Inl e \<Rightarrow> Inl e
                | Inr (DataFrame labels rs) \<Rightarrow> Inl AttributeError
                | Inr (Series year_cells) \<Rightarrow>
                    Inr (df\<lparr>rows :=
                              filter_rows
                                (selectbox_programa (opciones_prog prog_cells))
                                (selectbox_year (opciones_year year_cells))
                                (replace_null_like (map (\<lambda>v. strip (str_of v)) prog_cells))
                                year_cells (rows df)\<rparr>,
                         selectbox_programa (opciones_prog prog_cells),
                         selectbox_year (opciones_year year_cells)))))"

section \<open>Charts\<close>

text \<open>
  What a chart function shows on the page: a message, or the table handed to the bar
  chart (label and count, in the order of the table), or a caption.
\<close>

datatype ui =
    Info ustring
  | Warning ustring
  | Markdown ustring
  | Caption ustring
  | Chart "(ustring \<times> nat) list"
  | ChartInt "(int \<times> nat) list"

definition SIN_DATOS :: ustring where
  "SIN_DATOS = ascii ''Sin datos para esta pregunta.''"

definition NO_ESCALA :: ustring where
  "NO_ESCALA =
     ascii ''No se pudo interpretar la escala 1'' @ [0x2013] @ ascii ''5 en esta pregunta.''"

definition dropna :: "pyval list \<Rightarrow> pyval list" where
  "dropna s = filter (\<lambda>v. \<not> isna v) s"

text \<open>
  \<open>value_counts()\<close>: each distinct value with the number of its occurrences, by
  descending count. Among equal counts the order is that of first occurrence here; pandas
  does not promise one, and nothing below depends on it.
\<close>

definition value_counts :: "'a list \<Rightarrow> ('a \<times> nat) list" where
  "value_counts xs =
     sort_key (\<lambda>(v, n). - int n) (map (\<lambda>v. (v, count_list xs v)) (unique xs))"

text \<open>\<open>.head(n)\<close>: the first \<open>n\<close> rows, or all but the last \<open>-n\<close> when \<open>n\<close> is negative.\<close>

definition head :: "int \<Rightarrow> 'a list \<Rightarrow> 'a list" where
  "head n xs = (if 0 \<le> n then take (nat n) xs else take (length xs - nat (- n)) xs)"

subsection \<open>Yes/no questions\<close>

text \<open>
  Under \<open>re.IGNORECASE\<close> a literal character of a pattern matches the code points of
  its case class. For the characters the patterns are written in (lower-case ASCII letters,
  ASCII digits, i acute) the classes are: a digit matches itself only; a letter matches
  both its cases; \<open>s\<close> also matches U+017F (long s), \<open>k\<close> also U+212A (Kelvin sign),
  and \<open>i\<close> also U+0130 and U+0131 (dotted capital I, dotless small i).
\<close>

definition ignorecase_class :: "nat \<Rightarrow> nat list" where
  "ignorecase_class p =
     (if p = 0x73 then [0x73, 0x53, 0x17F]
      else if p = 0x69 then [0x69, 0x49, 0x130, 0x131]
      else if p = 0x6B then [0x6B, 0x4B, 0x212A]
      else if p = 0xED then [0xED, 0xCD]
      else if 0x61 \<le> p \<and> p \<le> 0x7A then [p, p - 0x20]
      else [p])"

text \<open>A string matches a literal alternative when it does so character by character.\<close>

definition match_literal :: "ustring \<Rightarrow> ustring \<Rightarrow> bool" where
  "match_literal a v = list_all2 (\<lambda>p c. c \<in> set (ignorecase_class p)) a v"

text \<open>
  \<open>re.compile(r"^(a|b|...)$", re.IGNORECASE).match(v)\<close>: the whole of \<open>v\<close> matches one
  of the alternatives, or \<open>v\<close> ends in a newline and the text before it does, since
  \<open>$\<close> also matches just before a final newline.
\<close>

definition re_match_ignorecase :: "ustring list \<Rightarrow> ustring \<Rightarrow> bool" where
  "re_match_ignorecase alternatives v =
     list_ex (\<lambda>a. match_literal a v \<or>
                   (v \<noteq> [] \<and> last v = 0x0A \<and> match_literal a (butlast v)))
       alternatives"

definition yes_pattern :: "ustring list" where
  "yes_pattern = [ascii ''si'', ascii ''s'' @ [0xED], ascii ''true'', ascii ''1'', ascii ''x'']"

definition no_pattern :: "ustring list" where
  "no_pattern = [ascii ''no'', ascii ''false'', ascii ''0'']"

definition SI :: ustring where
  "SI = ascii ''S'' @ [0xED]"

definition NO :: ustring where
  "NO = ascii ''No''"

text \<open>The body of the loop that fills \<open>mapped\<close>.\<close>

definition binary_label :: "ustring \<Rightarrow> ustring" where
  "binary_label v =
     (if re_match_ignorecase yes_pattern v then SI
      else if re_match_ignorecase no_pattern v then NO
      else v)"

definition chart_binary :: "frame \<Rightarrow> ustring \<Rightarrow> error + ui list" where
  "chart_binary df col =
     (case getitem df col of
        Inl e \<Rightarrow> Inl e
      | Inr (DataFrame labels rs) \<Rightarrow> Inl AttributeError
      | Inr (Series s) \<Rightarrow>
          (if dropna s = [] then Inr [Info SIN_DATOS]
           else Inr [Chart (value_counts
                              (map binary_label (map (\<lambda>v. strip (str_of v)) (dropna s))))]))"

subsection \<open>Categorical questions\<close>

definition PREGUNTA_BENEFICIOS :: ustring where
  "PREGUNTA_BENEFICIOS =
     [0xBF] @ ascii ''Qu'' @ [0xE9] @ ascii '' beneficios te gustar'' @ [0xED]
     @ ascii ''a obtener de una asociaci'' @ [0xF3] @ ascii ''n de egresados?''"

text \<open>The series that is counted: trimmed texts, bucketed for the benefits question.\<close>

definition categorical_serie :: "ustring \<Rightarrow> pyval list \<Rightarrow> ustring list" where
  "categorical_serie col s =
     (if strip col = PREGUNTA_BENEFICIOS
      then map (\<lambda>v. normalize_beneficios (Str v)) (map (\<lambda>v. strip (str_of v)) (dropna s))
      else map (\<lambda>v. strip (str_of v)) (dropna s))"

definition chart_categorical :: "frame \<Rightarrow> ustring \<Rightarrow> int \<Rightarrow> error + ui list" where
  "chart_categorical df col top_k =
     (case getitem df col of
        Inl e \<Rightarrow> Inl e
      | Inr (DataFrame labels rs) \<Rightarrow> Inl AttributeError
      | Inr (Series s) \<Rightarrow>
          (if categorical_serie col s = [] then Inr [Info SIN_DATOS]
           else Inr [Chart (head top_k (value_counts (categorical_serie col s)))]))"

subsection \<open>The 1 to 5 scale\<close>

text \<open>
  Floating point is not modelled. The operations the chart applies to floats are taken
  as an argument: \<open>float(text)\<close> (\<open>None\<close> for its \<open>ValueError\<close>), the conversion
  \<open>round().astype(int)\<close> of one value (\<open>None\<close> when it is not finite, which pandas
  refuses for the whole series), \<open>Series.mean()\<close>, and the format \<open>.2f\<close>.
\<close>

record 'f float_ops =
  py_float :: "ustring \<Rightarrow> 'f option"
  round_int :: "'f \<Rightarrow> int option"
  mean :: "'f list \<Rightarrow> 'f"
  format_2f :: "'f \<Rightarrow> ustring"

text \<open>\<open>str(v).replace(",", ".")\<close>.\<close>

definition replace_comma :: "ustring \<Rightarrow> ustring" where
  "replace_comma s = map (\<lambda>c. if c = 0x2C then 0x2E else c) s"

text \<open>The loop that fills \<open>numeric\<close>: a value that does not parse is skipped.\<close>

definition parse_numeric :: "'f float_ops \<Rightarrow> pyval list \<Rightarrow> 'f list" where
  "parse_numeric ops vs = List.map_filter (\<lambda>v. py_float ops (replace_comma (str_of v))) vs"

text \<open>
  \<open>df[col].dropna()\<close> and what iterating over it yields: the values of a Series, but
  the column labels of a DataFrame, which has lost every row with a missing cell.
\<close>

definition dropna_empty :: "item \<Rightarrow> bool" where
  "dropna_empty it =
     (case it of
        Series s \<Rightarrow> dropna s = []
      | DataFrame labels rs \<Rightarrow> filter (\<lambda>r. \<not> list_ex isna r) rs = [] \<or> labels = [])"

definition dropna_values :: "item \<Rightarrow> pyval list" where
  "dropna_values it =
     (case it of
        Series s \<Rightarrow> dropna s
      | DataFrame labels rs \<Rightarrow> map Str labels)"

text \<open>\<open>.sort_index()\<close> and \<open>.reindex(keys, fill_value=0)\<close> on a table of counts.\<close>

definition sort_index :: "(int \<times> nat) list \<Rightarrow> (int \<times> nat) list" where
  "sort_index vc = sort_key fst vc"

definition reindex :: "int list \<Rightarrow> (int \<times> nat) list \<Rightarrow> (int \<times> nat) list" where
  "reindex keys vc = map (\<lambda>k. (k, case map_of vc k of Some n \<Rightarrow> n | None \<Rightarrow> 0)) keys"

definition likert_chart :: "'f float_ops \<Rightarrow> 'f list \<Rightarrow> error + ui list" where
  "likert_chart ops numeric =
     (case those (map (round_int ops) numeric) of
        None \<Rightarrow> Inl ValueError
      | Some rounded \<Rightarrow>
          Inr [ChartInt (reindex [1, 2, 3, 4, 5] (sort_index (value_counts rounded))),
               Caption (ascii ''Promedio: '' @ format_2f ops (mean ops numeric))])"

definition chart_likert :: "'f float_ops \<Rightarrow> frame \<Rightarrow> ustring \<Rightarrow> error + ui list" where
  "chart_likert ops df col =
     (case getitem df col of
        Inl e \<Rightarrow> Inl e
      | Inr serie \<Rightarrow>
          (if dropna_empty serie then Inr [Info SIN_DATOS]
           else if parse_numeric ops (dropna_values serie) = [] then Inr [Info NO_ESCALA]
           else likert_chart ops (parse_numeric ops (dropna_values serie))))"

subsection \<open>Exact decimals for running the scale chart\<close>

text \<open>
  An instance of the float operations for concrete columns: a number is a fraction with
  a positive denominator, read from a plain decimal literal (optional sign, digits,
  optionally a point and more digits), and every operation is exact, with ties rounded
  to even. It agrees with Python on literals such as \<open>7\<close>, \<open>4\<close> or \<open>3.6\<close> and on
  text that is no number; exponents, \<open>inf\<close> and \<open>nan\<close> are outside it.
\<close>

datatype frac = Frac int nat

definition unsigned_decimal :: "ustring \<Rightarrow> frac option" where
  "unsigned_decimal s =
     (if 0x2E \<in> set s
      then (if list_all is_digit (takeWhile (\<lambda>c. c \<noteq> 0x2E) s)
               \<and> list_all is_digit (tl (dropWhile (\<lambda>c. c \<noteq> 0x2E) s))
               \<and> (takeWhile (\<lambda>c. c \<noteq> 0x2E) s \<noteq> [] \<or> tl (dropWhile (\<lambda>c. c \<noteq> 0x2E) s) \<noteq> [])
            then Some (Frac (int (int_of_digits (takeWhile (\<lambda>c. c \<noteq> 0x2E) s
                                                  @ tl (dropWhile (\<lambda>c. c \<noteq> 0x2E) s))))
                            (10 ^ length (tl (dropWhile (\<lambda>c. c \<noteq> 0x2E) s))))
            else None)
      else if s \<noteq> [] \<and> list_all is_digit s then Some (Frac (int (int_of_digits s)) 1)
      else None)"

fun frac_neg :: "frac \<Rightarrow> frac" where
  "frac_neg (Frac n d) = Frac (- n) d"

definition decimal_float :: "ustring \<Rightarrow> frac option" where
  "decimal_float s =
     (case strip s of
        [] \<Rightarrow> None
      | c # cs \<Rightarrow>
          if c = 0x2D then map_option frac_neg (unsigned_decimal cs)
          else if c = 0x2B then unsigned_decimal cs
          else unsigned_decimal (c # cs))"

fun round_half_even :: "frac \<Rightarrow> int" where
  "round_half_even (Frac n d) =
     (if 2 * (n mod int d) < int d then n div int d
      else if int d < 2 * (n mod int d) then n div int d + 1
      else if even (n div int d) then n div int d
      else n div int d + 1)"

fun frac_add :: "frac \<Rightarrow> frac \<Rightarrow> frac" where
  "frac_add (Frac n d) (Frac m e) = Frac (n * int e + m * int d) (d * e)"

fun frac_div_nat :: "frac \<Rightarrow> nat \<Rightarrow> frac" where
  "frac_div_nat (Frac n d) k = Frac n (d * k)"

definition frac_mean :: "frac list \<Rightarrow> frac" where
  "frac_mean fs = frac_div_nat (foldl frac_add (Frac 0 1) fs) (length fs)"

fun digits_of :: "nat \<Rightarrow> ustring" where
  "digits_of n = (if n < 10 then [0x30 + n] else digits_of (n div 10) @ [0x30 + n mod 10])"

declare digits_of.simps [simp del]

fun frac_hundredths :: "frac \<Rightarrow> int" where
  "frac_hundredths (Frac n d) = round_half_even (Frac (100 * n) d)"

definition frac_format_2f :: "frac \<Rightarrow> ustring" where
  "frac_format_2f f =
     (if frac_hundredths f < 0 then [0x2D] else [])
     @ digits_of (nat \<bar>frac_hundredths f\<bar> div 100)
     @ [0x2E, 0x30 + nat \<bar>frac_hundredths f\<bar> mod 100 div 10,
        0x30 + nat \<bar>frac_hundredths f\<bar> mod 10]"

definition decimal_ops :: "frac float_ops" where
  "decimal_ops =
     \<lparr>py_float = decimal_float,
      round_int = (\<lambda>f. Some (round_half_even f)),
      mean = frac_mean,
      format_2f = frac_format_2f\<rparr>"

section \<open>Multi-valued questions\<close>

text \<open>\<open>re.split(r"[;,/]", text)\<close>: the pieces between the delimiters, empty ones included.\<close>

fun re_split :: "(nat \<Rightarrow> bool) \<Rightarrow> ustring \<Rightarrow> ustring list" where
  "re_split delim [] = [[]]"
| "re_split delim (c # cs) =
     (if delim c then [] # re_split delim cs
      else (case re_split delim cs of
              [] \<Rightarrow> [[c]]
            | piece # pieces \<Rightarrow> (c # piece) # pieces))"

definition is_delimiter :: "nat \<Rightarrow> bool" where
  "is_delimiter c \<longleftrightarrow> c = 0x3B \<or> c = 0x2C \<or> c = 0x2F"

definition split_multi_values :: "item \<Rightarrow> ustring list" where
  "split_multi_values series =
     concat (map (\<lambda>val. filter (\<lambda>part. part \<noteq> [])
                          (map strip (re_split is_delimiter (str_of val))))
               (dropna_values series))"

definition chart_multi :: "frame \<Rightarrow> ustring \<Rightarrow> int \<Rightarrow> error + ui list" where
  "chart_multi df col top_k =
     (case getitem df col of
        Inl e \<Rightarrow> Inl e
      | Inr series \<Rightarrow>
          (if split_multi_values series = [] then Inr [Info SIN_DATOS]
           else Inr [Chart (head top_k (value_counts (split_multi_values series)))]))"

text \<open>
  \<open>chart_multi_from_cols\<close>. \<open>nonzero\<close> stands for the test
  \<open>pd.to_numeric(v, errors="coerce")\<close>, with \<open>NaN\<close> filled by 0, \<open>!= 0\<close> on one cell.
  A name that occurs several times in the frame counts its first column.
\<close>

definition first_column :: "frame \<Rightarrow> ustring \<Rightarrow> pyval list" where
  "first_column df c = map (\<lambda>r. cell r (hd (positions df c))) (rows df)"

definition chart_multi_from_cols ::
  "(pyval \<Rightarrow> bool) \<Rightarrow> frame \<Rightarrow> ustring list \<Rightarrow> int \<Rightarrow> error + ui list" where
  "chart_multi_from_cols nonzero df option_cols top_k =
     (if option_cols = []
      then Inr [Info (ascii ''Sin columnas de opci'' @ [0xF3]
                      @ ascii ''n configuradas para esta pregunta.'')]
      else if filter (\<lambda>c. c \<in> set (columns df)) option_cols = []
      then Inr [Info (ascii ''Sin datos seleccionados para esta pregunta.'')]
      else Inr [Chart (head top_k
                  (sort_key (\<lambda>(c, n). - int n)
                     (map (\<lambda>c. (c, length (filter nonzero (first_column df c))))
                        (filter (\<lambda>c. c \<in> set (columns df)) option_cols))))])"

section \<open>The report driver\<close>

text \<open>
  A question of the configuration, with the defaults of \<open>q.get\<close> applied: the label and
  the section default to the empty string, the list of option columns to the empty list,
  and the column to \<open>None\<close>.
\<close>

record question =
  q_type :: ustring
  q_label :: ustring
  q_column :: "ustring option"
  q_columns :: "ustring list"
  q_section :: ustring

definition BINARIA :: ustring where "BINARIA = ascii ''BINARIA''"
definition CATEGORICA :: ustring where "CATEGORICA = ascii ''CATEGORICA''"
definition MULTI :: ustring where "MULTI = ascii ''MULTI''"
definition LIKERT :: ustring where "LIKERT = ascii ''LIKERT''"
definition MULTI_COLS :: ustring where "MULTI_COLS = ascii ''MULTI_COLS''"

text \<open>
  The closed set of question types, in the spelling the driver compares with: the
  specification calls them BINARY, CATEGORICAL, MULTI, LIKERT and MULTI_COLUMNS.
\<close>

definition supported_types :: "ustring list" where
  "supported_types = [BINARIA, CATEGORICA, MULTI, LIKERT, MULTI_COLS]"

text \<open>\<open>not col or col not in df_filt.columns\<close>, and \<open>col\<close> as the f-string prints it.\<close>

definition column_missing :: "frame \<Rightarrow> ustring option \<Rightarrow> bool" where
  "column_missing df col =
     (case col of None \<Rightarrow> True | Some c \<Rightarrow> c = [] \<or> c \<notin> set (columns df))"

definition format_col :: "ustring option \<Rightarrow> ustring" where
  "format_col col = (case col of None \<Rightarrow> ascii ''None'' | Some c \<Rightarrow> c)"

text \<open>
  The column name handed to a chart function. The four functions that take it are
  reached with a name that is in the frame; \<open>None\<close> only arrives with \<open>MULTI_COLS\<close>,
  which does not read it.
\<close>

definition col_name :: "ustring option \<Rightarrow> ustring" where
  "col_name col = (case col of None \<Rightarrow> [] | Some c \<Rightarrow> c)"

text \<open>What has been shown so far, followed by what a chart function shows or raises.\<close>

definition emit :: "ui list \<Rightarrow> error + ui list \<Rightarrow> error + ui list" where
  "emit shown r = (case r of Inl e \<Rightarrow> Inl e | Inr out \<Rightarrow> Inr (shown @ out))"

text \<open>The \<open>if\<close>/\<open>elif\<close> chain on \<open>qtype\<close>.\<close>

definition dispatch ::
  "'f float_ops \<Rightarrow> (pyval \<Rightarrow> bool) \<Rightarrow> int \<Rightarrow> frame \<Rightarrow> question \<Rightarrow> ustring \<Rightarrow> error + ui list" where
  "dispatch ops nonzero top_k df q qtype =
     (if qtype = BINARIA then chart_binary df (col_name (q_column q))
      else if qtype = CATEGORICA then chart_categorical df (col_name (q_column q)) top_k
      else if qtype = MULTI then chart_multi df (col_name (q_column q)) top_k
      else if qtype = LIKERT then chart_likert ops df (col_name (q_column q))
      else if qtype = MULTI_COLS then chart_multi_from_cols nonzero df (q_columns q) top_k
      else Inr [Info (ascii ''Tipo no soportado: '' @ qtype)])"

text \<open>The body of the loop over the questions of a section.\<close>

definition render_question ::
  "'f float_ops \<Rightarrow> (pyval \<Rightarrow> bool) \<Rightarrow> int \<Rightarrow> frame \<Rightarrow> question \<Rightarrow> error + ui list" where
  "render_question ops nonzero top_k df q =
     (if upper (q_type q) \<noteq> MULTI_COLS \<and> column_missing df (q_column q)
      then Inr [Warning (ascii ''La columna no existe en los datos: '' @ format_col (q_column q))]
      else emit [Markdown (ascii ''### '' @ q_label q)]
             (dispatch ops nonzero top_k df q (upper (q_type q))))"

text \<open>The loop itself: an exception of a chart function ends it.\<close>

fun render_questions ::
  "'f float_ops \<Rightarrow> (pyval \<Rightarrow> bool) \<Rightarrow> int \<Rightarrow> frame \<Rightarrow> question list \<Rightarrow> error + ui list" where
  "render_questions ops nonzero top_k df [] = Inr []"
| "render_questions ops nonzero top_k df (q # qs) =
     (case render_question ops nonzero top_k df q of
        Inl e \<Rightarrow> Inl e
      | Inr out \<Rightarrow> emit out (render_questions ops nonzero top_k df qs))"

definition section_titles :: "(ustring \<times> ustring) list" where
  "section_titles =
     [(ascii ''A'', ascii ''Situaci'' @ [0xF3] @ ascii ''n Laboral''),
      (ascii ''B'', ascii ''Emprendimiento''),
      (ascii ''C'', ascii ''Satisfacci'' @ [0xF3]
                    @ ascii ''n con los recursos ofrecidos por la Universidad''),
      (ascii ''D'', ascii ''Autoevaluaci'' @ [0xF3] @ ascii ''n''),
      (ascii ''E'', ascii ''Acreditaci'' @ [0xF3] @ ascii ''n Institucional '')]"

text \<open>One pass of the loop over the sections, and the loop from a list of sections on.\<close>

definition render_section ::
  "'f float_ops \<Rightarrow> (pyval \<Rightarrow> bool) \<Rightarrow> int \<Rightarrow> frame \<Rightarrow> question list \<Rightarrow> ustring \<times> ustring \<Rightarrow>
     error + ui list" where
  "render_section ops nonzero top_k df questions sec =
     (if filter (\<lambda>q. upper (q_section q) = fst sec) questions = [] then Inr []
      else emit [Markdown (ascii ''## '' @ snd sec)]
             (render_questions ops nonzero top_k df
                (filter (\<lambda>q. upper (q_section q) = fst sec) questions)))"

fun render_sections ::
  "'f float_ops \<Rightarrow> (pyval \<Rightarrow> bool) \<Rightarrow> int \<Rightarrow> frame \<Rightarrow> question list \<Rightarrow> (ustring \<times> ustring) list \<Rightarrow>
     error + ui list" where
  "render_sections ops nonzero top_k df questions [] = Inr []"
| "render_sections ops nonzero top_k df questions (sec # secs) =
     (case render_section ops nonzero top_k df questions sec of
        Inl e \<Rightarrow> Inl e
      | Inr out \<Rightarrow> emit out (render_sections ops nonzero top_k df questions secs))"

text \<open>
  The part of \<open>main\<close> from the test for an empty filtered frame to the end of the
  sections.
\<close>

definition report :: "'f float_ops \<Rightarrow> (pyval \<Rightarrow> bool) \<Rightarrow> int \<Rightarrow> frame \<Rightarrow> question list \<Rightarrow> error + ui list" where
  "report ops nonzero top_k df_filt questions =
     (if rows df_filt = []
      then Inr [Warning (ascii ''No hay respuestas para ese filtro. Cambia Programa/A''
                         @ [0xF1] @ ascii ''oEgreso.'')]
      else render_sections ops nonzero top_k df_filt questions section_titles)"

section \<open>Example inputs\<close>

text \<open>The header of the year column, with its n with tilde.\<close>

definition Ano_Egreso :: ustring where
  "Ano_Egreso = ascii ''A'' @ [0xF1] @ ascii ''o Egreso''"

text \<open>
  A raw table of 60 rows: a title line, an empty line, the header in row 2, and 57
  answers.
\<close>

definition example_raw :: raw_table where
  "example_raw =
     [[Str (ascii ''Encuesta de egresados''), Str [], Str []],
      [Str [], Str [], Str []],
      [Str (ascii ''Marca temporal''), Str (ascii ''Programa''),
       Str (Ano_Egreso)]]
     @ replicate 57 [Str (ascii ''t''), Str (ascii ''Ing''), Str (ascii ''2020'')]"

definition empty_frame :: frame where
  "empty_frame = \<lparr>columns = [], rows = []\<rparr>"

text \<open>The frame loaded from it, and a frame whose only column names both roles.\<close>

definition example_frame :: frame where
  "example_frame =
     \<lparr>columns = [ascii ''Marca temporal'', ascii ''Programa'',
                  Ano_Egreso],
      rows = replicate 57 [Str (ascii ''t''), Str (ascii ''Ing''), Str (ascii ''2020'')]\<rparr>"

definition both_roles_frame :: frame where
  "both_roles_frame = \<lparr>columns = [ascii ''Programa y ano egreso''], rows = []\<rparr>"

text \<open>
  A small loaded survey: program, year of graduation, a yes/no question and a 1 to 5
  scale. The third answer leaves the yes/no question empty.
\<close>

definition survey_frame :: frame where
  "survey_frame =
     \<lparr>columns = [ascii ''Programa'', Ano_Egreso,
                  ascii ''Empleado'', ascii ''Nota''],
      rows = [[Str (ascii ''Ing''), Str (ascii ''2019-2020''), Str (ascii ''Si''), Str (ascii ''4'')],
              [Str (ascii ''Med''), Str (ascii ''2021''), Str (ascii ''no''), Str (ascii ''5'')],
              [Str (ascii ''Ing ''), Str (ascii ''2020''), Str [], Str (ascii ''3,6'')]]\<rparr>"

text \<open>
  The answers to a yes/no question: two cells are missing, one answer is written with a
  long s (U+017F), one with spaces around it.
\<close>

definition answers_frame :: frame where
  "answers_frame =
     \<lparr>columns = [ascii ''Empleado''],
      rows = [[Str (ascii ''Si'')], [NaN], [Str (ascii '' s'' @ [0xED] @ ascii '' '')],
              [Str [0x17F, 0x69]], [PyNone], [Str (ascii ''NO'')], [Str (ascii ''no'')],
              [Str (ascii ''tal vez'')]]\<rparr>"

text \<open>A survey in which one graduate wrote \<open>Todos los programas\<close> as the program.\<close>

definition sentinel_frame :: frame where
  "sentinel_frame =
     \<lparr>columns = [ascii ''Programa'', Ano_Egreso],
      rows = [[Str (ascii ''Todos los programas''), Str (ascii ''2020'')],
              [Str (ascii ''Ing''), Str (ascii ''2021'')]]\<rparr>"


text \<open>
  A categorical column with ten cities, each named by two graduates, and one empty
  answer.
\<close>

definition city_answers :: "ustring list" where
  "city_answers =
     [ascii ''Armenia'', ascii ''Armenia'', ascii ''Bogota'', ascii ''Bogota'',
      ascii ''Cali'', ascii ''Cali'', ascii ''Dosquebradas'', ascii ''Dosquebradas'',
      ascii ''Envigado'', ascii ''Envigado'', ascii ''Florencia'', ascii ''Florencia'',
      ascii ''Girardot'', ascii ''Girardot'', ascii ''Honda'', ascii ''Honda'',
      ascii ''Ibague'', ascii ''Ibague'', ascii ''Jamundi'', ascii ''Jamundi'', []]"

definition city_frame :: frame where
  "city_frame = \<lparr>columns = [ascii ''Ciudad''], rows = map (\<lambda>v. [Str v]) city_answers\<rparr>"

text \<open>
  Three configured questions on \<open>survey_frame\<close>: a yes/no question on a column of the
  frame, a question of an unknown type whose column the frame lacks, and a question of an
  unknown type on a column of the frame.
\<close>

definition q_empleado :: question where
  "q_empleado =
     \<lparr>q_type = ascii ''binaria'', q_label = ascii ''Empleado'',
      q_column = Some (ascii ''Empleado''), q_columns = [], q_section = ascii ''A''\<rparr>"

definition q_comentarios :: question where
  "q_comentarios =
     \<lparr>q_type = ascii ''texto'', q_label = ascii ''Comentarios'',
      q_column = Some (ascii ''Comentarios''), q_columns = [], q_section = ascii ''A''\<rparr>"

definition q_nota_texto :: question where
  "q_nota_texto =
     \<lparr>q_type = ascii ''texto'', q_label = ascii ''Nota'',
      q_column = Some (ascii ''Nota''), q_columns = [], q_section = ascii ''A''\<rparr>"

text \<open>A stand-in for the numeric test of \<open>chart_multi_from_cols\<close> on exact decimals.\<close>

definition decimal_nonzero :: "pyval \<Rightarrow> bool" where
  "decimal_nonzero v =
     (case v of
        Str s \<Rightarrow> (case decimal_float s of Some (Frac n d) \<Rightarrow> n \<noteq> 0 | None \<Rightarrow> False)
      | _ \<Rightarrow> False)"

section \<open>Auxiliary notions\<close>

subsection \<open>For the normalizer\<close>

text \<open>What the per-character steps of \<open>norm\<close> make of one code point.\<close>

definition norm_cp :: "nat \<Rightarrow> ustring" where
  "norm_cp c = filter (\<lambda>ch. \<not> is_Mn ch) (concat (map decompose_cp (lower_cp c)))"



text \<open>Strings with no whitespace at either end.\<close>

definition trimmed :: "ustring \<Rightarrow> bool" where
  "trimmed x \<longleftrightarrow> x = [] \<or> (\<not> isspace (hd x) \<and> \<not> isspace (last x))"

subsection \<open>For the driver\<close>

definition UNSUPPORTED :: ustring where
  "UNSUPPORTED = ascii ''Tipo no soportado: ''"

text \<open>Output without an unsupported-type notice.\<close>

definition plain :: "ui list \<Rightarrow> bool" where
  "plain out \<longleftrightarrow> list_all (\<lambda>u. case u of Info x \<Rightarrow> x = [] \<or> hd x \<noteq> 0x54 | _ \<Rightarrow> True) out"

section \<open>The text normalizer\<close>

lemma decompose_low: "c < 0xC0 \<Longrightarrow> decompose_cp c = [c]"
  by (simp add: decompose_cp_def decomposition_table_def)










lemma norm_pipeline:
  "filter (\<lambda>ch. \<not> is_Mn ch) (normalize_NFD (lower s)) = concat (map norm_cp s)"
  by (induction s) (simp_all add: normalize_NFD_def lower_def norm_cp_def)

lemma norm_str_alt: "norm_str s = collapse_ws (concat (map norm_cp (strip (replace_nbsp s))))"
  by (simp add: norm_str_def norm_pipeline)

















lemma last_dropWhile: "dropWhile P xs \<noteq> [] \<Longrightarrow> last (dropWhile P xs) = last xs"
  by (induction xs) (auto split: if_splits)


lemma trimmed_strip: "trimmed (strip x)"
proof -
  let ?y = "dropWhile isspace x"
  let ?z = "dropWhile isspace (rev ?y)"
  show ?thesis
  proof (cases "?z = []")
    case True
    then show ?thesis by (simp add: trimmed_def strip_def)
  next
    case False
    then have "\<not> isspace (hd ?z)" by (rule hd_dropWhile)
    then have l: "\<not> isspace (last (rev ?z))" using False by (simp add: last_rev)
    from False have "last ?z = last (rev ?y)" by (rule last_dropWhile)
    moreover have y: "?y \<noteq> []"
    proof
      assume e: "?y = []"
      have "?z = []" unfolding e by simp
      with False show False by contradiction
    qed
    ultimately have "hd (rev ?z) = hd ?y" using False by (simp add: hd_rev last_rev)
    moreover from y have "\<not> isspace (hd ?y)" by (rule hd_dropWhile)
    ultimately have "\<not> isspace (hd (rev ?z))" by simp
    with l show ?thesis by (simp add: trimmed_def strip_def)
  qed
qed






lemma decompose_cp_eval:
  "decompose_cp 0xE1 = [0x61, 0x301]" "decompose_cp 0xE9 = [0x65, 0x301]"
  "decompose_cp 0xED = [0x69, 0x301]" "decompose_cp 0xF1 = [0x6E, 0x303]"
  "decompose_cp 0xF3 = [0x6F, 0x301]" "decompose_cp 0xFA = [0x75, 0x301]"
  "decompose_cp 0x301 = [0x301]"
  by (simp_all add: decompose_cp_def decomposition_table_def)

lemmas text_eval =
  ascii_def strip_def lower_def upper_def replace_nbsp_def normalize_NFD_def norm_str_def
  lower_cp_def upper_cp_def isspace_def is_Mn_def decompose_low decompose_cp_eval






section \<open>Benefits bucketing: the rule order\<close>

lemma py_in_sublist: "py_in p t = sublist p t"
  by (induction t) (simp_all add: sublist_Cons_right)

lemma py_in_append_left: "py_in (p @ q) t \<Longrightarrow> py_in p t"
  unfolding py_in_sublist sublist_def by (metis append.assoc)

lemma py_in_append_right: "py_in (p @ q) t \<Longrightarrow> py_in q t"
  unfolding py_in_sublist sublist_def by (metis append.assoc)

lemma beneficios_chain_spec:
  "beneficios_chain t texto =
     (case first_match spec_bucketing_rules t (lower texto) of
        Some category \<Rightarrow> category | None \<Rightarrow> strip texto)"
proof -
  have 1: "py_in (ascii ''ninguno por el momento'') t \<Longrightarrow> py_in (ascii ''ninguno'') t"
    using py_in_append_left [of "ascii ''ninguno''" "ascii '' por el momento''" t]
    by (simp add: ascii_def)
  have 2: "py_in (ascii ''no conozco los beneficios actuales'') t \<Longrightarrow>
           py_in (ascii ''no conozco los beneficios'') t"
    using py_in_append_left [of "ascii ''no conozco los beneficios''" "ascii '' actuales''" t]
    by (simp add: ascii_def)
  have 3: "py_in (ascii ''vinculacion a la bolsa de empleo'') t \<Longrightarrow>
           py_in (ascii ''bolsa de empleo'') t"
    using py_in_append_right [of "ascii ''vinculacion a la ''" "ascii ''bolsa de empleo''" t]
    by (simp add: ascii_def)
  show ?thesis
    unfolding beneficios_chain_def spec_bucketing_rules_def first_match.simps
    using 1 2 3 by auto
qed

text \<open>
  C5. The if-chain of \<open>normalize_beneficios\<close> is the specification's ordered rule list
  with the first matching rule winning, and the trimmed original text when none matches.
  The four inputs the specification names give the categories it names, an input that
  meets rules 1 and 2 gets the category of rule 1, and an empty or missing input gives the
  empty string.
\<close>

theorem normalize_beneficios_first_match:
  "normalize_beneficios (Str texto) = spec_bucketing texto \<and>
   normalize_beneficios (Str (ascii ''No tengo conocimiento'')) =
     ascii ''Ninguno / no conoce beneficios'' \<and>
   normalize_beneficios (Str (ascii ''Quiero descuentos en matr'' @ [0xED] @ ascii ''cula'')) =
     ascii ''Descuentos y beneficios econ'' @ [0xF3] @ ascii ''micos'' \<and>
   normalize_beneficios (Str (ascii ''Algo totalmente distinto'')) =
     ascii ''Algo totalmente distinto'' \<and>
   normalize_beneficios (Str (ascii ''  Algo totalmente distinto '')) =
     ascii ''Algo totalmente distinto'' \<and>
   normalize_beneficios (Str (ascii ''Ninguno, ni descuentos'')) =
     ascii ''Ninguno / no conoce beneficios'' \<and>
   normalize_beneficios (Str []) = [] \<and> normalize_beneficios (Str (ascii ''   '')) = [] \<and>
   normalize_beneficios PyNone = [] \<and> normalize_beneficios NaN = []"
proof -
  have "normalize_beneficios (Str texto) = spec_bucketing texto"
    by (simp add: spec_bucketing_def beneficios_chain_spec)
  moreover have "normalize_beneficios (Str (ascii ''No tengo conocimiento'')) =
     ascii ''Ninguno / no conoce beneficios''"
    by (simp add: beneficios_chain_def text_eval)
  moreover have "normalize_beneficios (Str (ascii ''Quiero descuentos en matr'' @ [0xED] @ ascii ''cula'')) =
     ascii ''Descuentos y beneficios econ'' @ [0xF3] @ ascii ''micos''"
    by (simp add: beneficios_chain_def text_eval)
  moreover have "normalize_beneficios (Str (ascii ''Algo totalmente distinto'')) =
     ascii ''Algo totalmente distinto''"
    by (simp add: beneficios_chain_def text_eval)
  moreover have "normalize_beneficios (Str (ascii ''  Algo totalmente distinto '')) =
     ascii ''Algo totalmente distinto''"
    by (simp add: beneficios_chain_def text_eval)
  moreover have "normalize_beneficios (Str (ascii ''Ninguno, ni descuentos'')) =
     ascii ''Ninguno / no conoce beneficios''"
    by (simp add: beneficios_chain_def text_eval)
  moreover have "normalize_beneficios (Str []) = []" "normalize_beneficios (Str (ascii ''   '')) = []"
    by (simp_all add: text_eval)
  ultimately show ?thesis by simp
qed

section \<open>The header locator\<close>

lemma scan_rows_Some:
  "scan_rows raw m i = Some h \<longleftrightarrow>
     i \<le> h \<and> h < m \<and> is_header_row (raw ! h) \<and> (\<forall>j. i \<le> j \<and> j < h \<longrightarrow> \<not> is_header_row (raw ! j))"
proof (induction raw m i rule: scan_rows.induct)
  case (1 raw m i)
  show ?case
  proof (cases "i < m")
    case False
    then show ?thesis by (subst scan_rows.simps) auto
  next
    case True
    show ?thesis
    proof (cases "is_header_row (raw ! i)")
      case h: True
      have "scan_rows raw m i = Some i" using True h by (subst scan_rows.simps) simp
      moreover have "(i \<le> h \<and> h < m \<and> is_header_row (raw ! h) \<and>
          (\<forall>j. i \<le> j \<and> j < h \<longrightarrow> \<not> is_header_row (raw ! j))) \<longleftrightarrow> h = i"
      proof (cases "h = i")
        case True
        with \<open>i < m\<close> h show ?thesis by auto
      next
        case False
        have "\<not> (i \<le> h \<and> (\<forall>j. i \<le> j \<and> j < h \<longrightarrow> \<not> is_header_row (raw ! j)))"
        proof
          assume b: "i \<le> h \<and> (\<forall>j. i \<le> j \<and> j < h \<longrightarrow> \<not> is_header_row (raw ! j))"
          with False have "i < h" by simp
          with b have "\<not> is_header_row (raw ! i)" by simp
          with h show False by simp
        qed
        with False show ?thesis by blast
      qed
      ultimately show ?thesis by auto
    next
      case h: False
      have "scan_rows raw m i = scan_rows raw m (Suc i)"
        using True h by (subst scan_rows.simps) simp
      moreover have "(i \<le> h \<and> h < m \<and> is_header_row (raw ! h) \<and>
          (\<forall>j. i \<le> j \<and> j < h \<longrightarrow> \<not> is_header_row (raw ! j))) \<longleftrightarrow>
        (Suc i \<le> h \<and> h < m \<and> is_header_row (raw ! h) \<and>
          (\<forall>j. Suc i \<le> j \<and> j < h \<longrightarrow> \<not> is_header_row (raw ! j)))"
        (is "?L \<longleftrightarrow> ?R")
      proof
        assume l: ?L
        then have "h \<noteq> i" using h by auto
        with l have "Suc i \<le> h" by simp
        with l show ?R by simp
      next
        assume r: ?R
        have "\<not> is_header_row (raw ! j)" if "i \<le> j \<and> j < h" for j
        proof (cases "j = i")
          case True
          with h show ?thesis by simp
        next
          case False
          with that have "Suc i \<le> j \<and> j < h" by simp
          with r show ?thesis by simp
        qed
        with r show ?L by simp
      qed
      ultimately show ?thesis using "1.IH" True h by simp
    qed
  qed
qed

lemma scan_rows_None:
  "scan_rows raw m i = None \<longleftrightarrow> (\<forall>j. i \<le> j \<and> j < m \<longrightarrow> \<not> is_header_row (raw ! j))"
proof
  assume n: "scan_rows raw m i = None"
  show "\<forall>j. i \<le> j \<and> j < m \<longrightarrow> \<not> is_header_row (raw ! j)"
  proof (rule ccontr)
    assume "\<not> (\<forall>j. i \<le> j \<and> j < m \<longrightarrow> \<not> is_header_row (raw ! j))"
    then have ex: "\<exists>j. i \<le> j \<and> j < m \<and> is_header_row (raw ! j)" by blast
    define h where "h = (LEAST j. i \<le> j \<and> j < m \<and> is_header_row (raw ! j))"
    from ex have "i \<le> h \<and> h < m \<and> is_header_row (raw ! h)"
      unfolding h_def by (rule LeastI_ex)
    moreover have "\<not> is_header_row (raw ! j)" if j: "i \<le> j \<and> j < h" for j
    proof
      assume "is_header_row (raw ! j)"
      with j calculation have "i \<le> j \<and> j < m \<and> is_header_row (raw ! j)" by simp
      then have "h \<le> j" unfolding h_def by (rule Least_le)
      with j show False by simp
    qed
    ultimately have "scan_rows raw m i = Some h" by (simp add: scan_rows_Some)
    with n show False by simp
  qed
next
  assume a: "\<forall>j. i \<le> j \<and> j < m \<longrightarrow> \<not> is_header_row (raw ! j)"
  show "scan_rows raw m i = None"
  proof (cases "scan_rows raw m i")
    case None
    then show ?thesis .
  next
    case (Some h)
    then have "i \<le> h \<and> h < m \<and> is_header_row (raw ! h)" by (simp add: scan_rows_Some)
    with a show ?thesis by blast
  qed
qed

lemma header_row_idx_Some:
  "header_row_idx raw = Some h \<longleftrightarrow>
     h < min (length raw) 50 \<and> is_header_row (raw ! h) \<and> (\<forall>j<h. \<not> is_header_row (raw ! j))"
  by (simp add: header_row_idx_def scan_rows_Some)

lemma header_row_idx_None:
  "header_row_idx raw = None \<longleftrightarrow> (\<forall>j < min (length raw) 50. \<not> is_header_row (raw ! j))"
  by (simp add: header_row_idx_def scan_rows_None)

lemma header_row_idx_take: "header_row_idx (take 50 raw) = header_row_idx raw"
proof (cases "header_row_idx raw")
  case None
  then have "\<forall>j < min (length raw) 50. \<not> is_header_row (raw ! j)"
    by (simp add: header_row_idx_None)
  then have "header_row_idx (take 50 raw) = None"
    by (simp add: header_row_idx_None)
  with None show ?thesis by simp
next
  case (Some h)
  then have "h < min (length raw) 50 \<and> is_header_row (raw ! h) \<and> (\<forall>j<h. \<not> is_header_row (raw ! j))"
    by (simp add: header_row_idx_Some)
  then have "header_row_idx (take 50 raw) = Some h"
    by (simp add: header_row_idx_Some)
  with Some show ?thesis by simp
qed

lemma is_header_row_iff:
  "is_header_row r \<longleftrightarrow>
     (\<exists>c\<in>set r. py_in (ascii ''programa'') (norm c)) \<and>
     (\<exists>c\<in>set r. \<exists>p\<in>set YEAR_PATTERNS. py_in p (norm c))"
  by (simp add: is_header_row_def has_prog_def has_year_def PROGRAM_PATTERNS_def list_ex_iff)

text \<open>
  C1. The scan looks at the first 50 rows only. It returns the lowest index of a row
  with a cell whose normalized text contains "programa" and a cell whose normalized text
  contains one of the six year patterns, or nothing when the window has no such row.
  The frame built from header row \<open>h\<close> has the raw rows after \<open>h\<close> as its rows. For a
  table of 60 rows whose first such row is row 2, the index is 2 and the frame has 57 rows.
\<close>

theorem header_locator:
  "header_row_idx (take 50 raw) = header_row_idx raw \<and>
   (header_row_idx raw = Some h \<longleftrightarrow>
      h < min (length raw) 50 \<and> is_header_row (raw ! h) \<and> (\<forall>j<h. \<not> is_header_row (raw ! j))) \<and>
   (header_row_idx raw = None \<longleftrightarrow> (\<forall>j < min (length raw) 50. \<not> is_header_row (raw ! j))) \<and>
   (is_header_row r \<longleftrightarrow>
      (\<exists>c\<in>set r. py_in (ascii ''programa'') (norm c)) \<and>
      (\<exists>c\<in>set r. \<exists>p\<in>set YEAR_PATTERNS. py_in p (norm c))) \<and>
   length YEAR_PATTERNS = 6 \<and>
   (header_row_idx raw = Some h \<longrightarrow>
      rows (load_data_with_header_detection raw df_default) = drop (h + 1) raw \<and>
      columns (load_data_with_header_detection raw df_default) =
        map (\<lambda>c. clean_header (str_of c)) (raw ! h)) \<and>
   (length raw = 60 \<and> is_header_row (raw ! 2) \<and> \<not> is_header_row (raw ! 0) \<and>
    \<not> is_header_row (raw ! 1) \<longrightarrow>
      header_row_idx raw = Some 2 \<and>
      rows (load_data_with_header_detection raw df_default) = drop 3 raw \<and>
      length (rows (load_data_with_header_detection raw df_default)) = 57)"
proof -
  have load: "header_row_idx raw = Some k \<Longrightarrow>
      rows (load_data_with_header_detection raw df_default) = drop (k + 1) raw \<and>
      columns (load_data_with_header_detection raw df_default) =
        map (\<lambda>c. clean_header (str_of c)) (raw ! k)" for k
    by (simp add: load_data_with_header_detection_def)
  have sixty: "header_row_idx raw = Some 2 \<and>
      rows (load_data_with_header_detection raw df_default) = drop 3 raw \<and>
      length (rows (load_data_with_header_detection raw df_default)) = 57"
    if a: "length raw = 60" "is_header_row (raw ! 2)" "\<not> is_header_row (raw ! 0)"
      "\<not> is_header_row (raw ! 1)"
  proof -
    have "\<forall>j<2. \<not> is_header_row (raw ! j)"
    proof (intro allI impI)
      fix j :: nat assume "j < 2"
      then have "j = 0 \<or> j = 1" by linarith
      with a show "\<not> is_header_row (raw ! j)" by auto
    qed
    with a have h: "header_row_idx raw = Some 2" by (simp add: header_row_idx_Some)
    from load [OF h] a h show ?thesis by (simp add: numeral_3_eq_3)
  qed
  show ?thesis
  proof (intro conjI)
    show "header_row_idx (take 50 raw) = header_row_idx raw"
      by (rule header_row_idx_take)
    show "header_row_idx raw = Some h \<longleftrightarrow>
      h < min (length raw) 50 \<and> is_header_row (raw ! h) \<and> (\<forall>j<h. \<not> is_header_row (raw ! j))"
      by (rule header_row_idx_Some)
    show "header_row_idx raw = None \<longleftrightarrow> (\<forall>j < min (length raw) 50. \<not> is_header_row (raw ! j))"
      by (rule header_row_idx_None)
    show "is_header_row r \<longleftrightarrow>
      (\<exists>c\<in>set r. py_in (ascii ''programa'') (norm c)) \<and>
      (\<exists>c\<in>set r. \<exists>p\<in>set YEAR_PATTERNS. py_in p (norm c))"
      by (rule is_header_row_iff)
    show "length YEAR_PATTERNS = 6" by (simp add: YEAR_PATTERNS_def)
    show "header_row_idx raw = Some h \<longrightarrow>
      rows (load_data_with_header_detection raw df_default) = drop (h + 1) raw \<and>
      columns (load_data_with_header_detection raw df_default) =
        map (\<lambda>c. clean_header (str_of c)) (raw ! h)"
      using load by blast
    show "length raw = 60 \<and> is_header_row (raw ! 2) \<and> \<not> is_header_row (raw ! 0) \<and>
      \<not> is_header_row (raw ! 1) \<longrightarrow>
      header_row_idx raw = Some 2 \<and>
      rows (load_data_with_header_detection raw df_default) = drop 3 raw \<and>
      length (rows (load_data_with_header_detection raw df_default)) = 57"
      using sixty by blast
  qed
qed

lemmas header_eval =
  is_header_row_def has_prog_def has_year_def PROGRAM_PATTERNS_def YEAR_PATTERNS_def
  Ano_Egreso_def

theorem header_locator_witness:
  "header_row_idx example_raw = Some 2 \<and>
   rows (load_data_with_header_detection example_raw empty_frame) =
     replicate 57 [Str (ascii ''t''), Str (ascii ''Ing''), Str (ascii ''2020'')] \<and>
   length (rows (load_data_with_header_detection example_raw empty_frame)) = 57"
proof -
  have a: "length example_raw = 60" by (simp add: example_raw_def)
  have b: "is_header_row (example_raw ! 2)"
    by (simp add: example_raw_def header_eval text_eval)
  have c: "\<not> is_header_row (example_raw ! 0)"
    by (simp add: example_raw_def header_eval text_eval)
  have d: "\<not> is_header_row (example_raw ! 1)"
    by (simp add: example_raw_def header_eval text_eval)
  have e: "drop 3 example_raw =
      replicate 57 [Str (ascii ''t''), Str (ascii ''Ing''), Str (ascii ''2020'')]"
    by (simp add: example_raw_def)
  from a b c d header_locator [of example_raw 2 "[]" empty_frame]
  have "header_row_idx example_raw = Some 2 \<and>
      rows (load_data_with_header_detection example_raw empty_frame) = drop 3 example_raw \<and>
      length (rows (load_data_with_header_detection example_raw empty_frame)) = 57"
    by blast
  with e show ?thesis by simp
qed

section \<open>The column classifier\<close>

lemma detect_loop_find:
  "detect_loop cs (p, y) =
     (if p = None then find is_prog_name cs else p, if y = None then find is_year_name cs else y)"
  by (induction cs arbitrary: p y) auto

lemma detect_find:
  "detect_program_year_columns df =
     (case (find is_prog_name (columns df), find is_year_name (columns df)) of
        (Some p, Some y) \<Rightarrow> Inr (p, y)
      | _ \<Rightarrow> Inl (KeyError (columns df)))"
  by (simp add: detect_program_year_columns_def detect_loop_find)

lemma find_SomeD: "find P xs = Some x \<Longrightarrow> x \<in> set xs \<and> P x"
  by (auto simp: find_Some_iff)

lemmas detect_eval =
  is_prog_name_def is_year_name_def PROGRAM_PATTERNS_def YEAR_PATTERNS_def Ano_Egreso_def

text \<open>
  C2. The classifier returns the first column (in column order) whose normalized name
  contains a program pattern together with the first column whose normalized name
  contains a year pattern, or fails with a \<open>KeyError\<close> that lists the frame's column
  names. The two roles are filled independently: a column that is the first match of both
  pattern sets is returned for both roles.
\<close>

theorem detect_columns_first_match:
  "detect_program_year_columns df =
     (case (find is_prog_name (columns df), find is_year_name (columns df)) of
        (Some p, Some y) \<Rightarrow> Inr (p, y)
      | _ \<Rightarrow> Inl (KeyError (columns df))) \<and>
   (detect_program_year_columns df = Inr (p, y) \<longrightarrow>
      p \<in> set (columns df) \<and> is_prog_name p \<and> y \<in> set (columns df) \<and> is_year_name y) \<and>
   (detect_program_year_columns df = Inl e \<longrightarrow> e = KeyError (columns df)) \<and>
   (columns df = c # cs \<and> is_prog_name c \<and> is_year_name c \<longrightarrow>
      detect_program_year_columns df = Inr (c, c))"
proof (intro conjI)
  show "detect_program_year_columns df =
     (case (find is_prog_name (columns df), find is_year_name (columns df)) of
        (Some p, Some y) \<Rightarrow> Inr (p, y)
      | _ \<Rightarrow> Inl (KeyError (columns df)))"
    by (rule detect_find)
  show "detect_program_year_columns df = Inr (p, y) \<longrightarrow>
      p \<in> set (columns df) \<and> is_prog_name p \<and> y \<in> set (columns df) \<and> is_year_name y"
    by (auto simp: detect_find split: option.splits dest: find_SomeD)
  show "detect_program_year_columns df = Inl e \<longrightarrow> e = KeyError (columns df)"
    by (auto simp: detect_find split: option.splits)
  show "columns df = c # cs \<and> is_prog_name c \<and> is_year_name c \<longrightarrow>
      detect_program_year_columns df = Inr (c, c)"
    by (simp add: detect_find)
qed

theorem detect_columns_first_match_witness:
  "detect_program_year_columns example_frame =
     Inr (ascii ''Programa'', Ano_Egreso) \<and>
   ascii ''Programa'' \<in> set (columns example_frame) \<and> is_prog_name (ascii ''Programa'') \<and>
   is_year_name (Ano_Egreso) \<and>
   detect_program_year_columns empty_frame = Inl (KeyError []) \<and>
   detect_program_year_columns both_roles_frame =
     Inr (ascii ''Programa y ano egreso'', ascii ''Programa y ano egreso'')"
proof -
  have a: "detect_program_year_columns example_frame =
     Inr (ascii ''Programa'', Ano_Egreso)"
    by (simp add: detect_program_year_columns_def example_frame_def detect_eval text_eval)
  have b: "detect_program_year_columns empty_frame = Inl (KeyError [])"
    by (simp add: detect_program_year_columns_def empty_frame_def)
  have c: "columns both_roles_frame = ascii ''Programa y ano egreso'' # []"
    by (simp add: both_roles_frame_def)
  have d: "is_prog_name (ascii ''Programa y ano egreso'')"
    "is_year_name (ascii ''Programa y ano egreso'')"
    by (simp_all add: detect_eval text_eval)
  from a detect_columns_first_match
    [of example_frame "ascii ''Programa''" "Ano_Egreso"]
  have "ascii ''Programa'' \<in> set (columns example_frame) \<and> is_prog_name (ascii ''Programa'') \<and>
     is_year_name (Ano_Egreso)"
    by blast
  moreover from c d detect_columns_first_match
    [of both_roles_frame _ _ _ "ascii ''Programa y ano egreso''" "[]"]
  have "detect_program_year_columns both_roles_frame =
     Inr (ascii ''Programa y ano egreso'', ascii ''Programa y ano egreso'')"
    by blast
  ultimately show ?thesis using a b by simp
qed

theorem detect_column_in_both_roles:
  "is_prog_name (ascii ''Programa y ano egreso'') \<and>
   is_year_name (ascii ''Programa y ano egreso'') \<and>
   detect_program_year_columns \<lparr>columns = [ascii ''Programa y ano egreso''], rows = []\<rparr> =
     Inr (ascii ''Programa y ano egreso'', ascii ''Programa y ano egreso'')"
  by (simp add: detect_program_year_columns_def detect_eval text_eval)

section \<open>The filter engine\<close>

lemma set_unique: "set (unique xs) = set xs"
  by (simp add: unique_def)

lemma set_programas: "set (programas ps) = {p. Some p \<in> set ps}"
  by (auto simp: programas_def set_unique split: option.splits)

lemma replace_null_like_Some:
  "Some p \<in> set (replace_null_like s) \<Longrightarrow> p \<notin> set null_like"
  by (auto simp: replace_null_like_def split: if_splits)

lemma year_at_shape: "year_at s = Some y \<Longrightarrow> length y = 4 \<and> (hd y = 0x31 \<or> hd y = 0x32)"
  by (induction s rule: year_at.induct) (auto split: if_splits)

lemma re_search_year_shape:
  "re_search_year s = Some y \<Longrightarrow> length y = 4 \<and> (hd y = 0x31 \<or> hd y = 0x32)"
proof (induction s)
  case Nil
  then show ?case by simp
next
  case (Cons c cs)
  then show ?case by (auto split: option.splits dest: year_at_shape)
qed

lemma years_found: "y \<in> set (years raw) \<Longrightarrow> \<exists>val\<in>set raw. re_search_year val = Some y"
  by (auto simp: years_def set_unique split: option.splits)

lemma years_shape: "y \<in> set (years raw) \<Longrightarrow> length y = 4 \<and> (hd y = 0x31 \<or> hd y = 0x32)"
  using years_found re_search_year_shape by blast

lemma py_in_same_length: "length p = length s \<Longrightarrow> py_in p s \<longleftrightarrow> p = s"
proof -
  assume l: "length p = length s"
  have "py_in p s \<longleftrightarrow> (\<exists>a b. s = a @ p @ b)" by (simp add: py_in_sublist sublist_def)
  also have "\<dots> \<longleftrightarrow> p = s"
  proof
    assume "\<exists>a b. s = a @ p @ b"
    then obtain a b where s: "s = a @ p @ b" by blast
    then have "length s = length a + length p + length b" by simp
    with l have "a = [] \<and> b = []" by simp
    with s show "p = s" by simp
  next
    assume "p = s"
    then have "s = [] @ p @ []" by simp
    then show "\<exists>a b. s = a @ p @ b" by blast
  qed
  finally show ?thesis .
qed

lemma py_in_longer: "length s < length p \<Longrightarrow> \<not> py_in p s"
  by (auto simp: py_in_sublist sublist_def)

lemma year_not_in_missing:
  assumes "length y = 4" "hd y = 0x31 \<or> hd y = 0x32" "isna v"
  shows "\<not> py_in y (strip (str_of v))"
proof (cases v)
  case PyNone
  have s: "strip (str_of PyNone) = ascii ''None''" by (simp add: text_eval)
  have "y \<noteq> ascii ''None''" using assms(2) by (auto simp: ascii_def)
  moreover have "length y = length (ascii ''None'')" using assms(1) by (simp add: ascii_def)
  ultimately show ?thesis using PyNone s by (simp add: py_in_same_length)
next
  case NaN
  have s: "strip (str_of NaN) = ascii ''nan''" by (simp add: text_eval)
  have "length (ascii ''nan'') < length y" using assms(1) by (simp add: ascii_def)
  then show ?thesis using NaN s by (simp add: py_in_longer)
next
  case (Str x)
  with assms(3) show ?thesis by simp
qed

lemma filter_rows_cells:
  "filter_rows ps ys (map f rs) (map g rs) rs = filter (\<lambda>r. keep_row ps ys (f r) (g r)) rs"
  by (induction rs) (simp_all add: filter_rows_def)

lemma keep_row_valid:
  assumes p: "ps \<in> set (opciones_prog pcs)"
    and y: "ys \<in> set (opciones_year ycs)"
  shows "keep_row ps ys (if strip (str_of pv) \<in> set null_like then None else Some (strip (str_of pv))) yv
     \<longleftrightarrow> (ps = ALL_PROGRAMS \<or> strip (str_of pv) = ps)
        \<and> (ys = ALL_YEARS \<or> py_in ys (strip (str_of yv)))"
proof -
  have a: "strip (str_of pv) = ps \<Longrightarrow> strip (str_of pv) \<notin> set null_like" if "ps \<noteq> ALL_PROGRAMS"
  proof -
    from p that have "ps \<in> set (programas (replace_null_like (map (\<lambda>v. strip (str_of v)) pcs)))"
      by (simp add: opciones_prog_def)
    then have "Some ps \<in> set (replace_null_like (map (\<lambda>v. strip (str_of v)) pcs))"
      by (simp add: set_programas)
    then have "ps \<notin> set null_like" by (rule replace_null_like_Some)
    then show "strip (str_of pv) = ps \<Longrightarrow> strip (str_of pv) \<notin> set null_like" by simp
  qed
  have b: "py_in ys (strip (str_of yv)) \<Longrightarrow> \<not> isna yv" if "ys \<noteq> ALL_YEARS"
  proof -
    from y that have "ys \<in> set (years (map (\<lambda>v. strip (str_of v)) (filter (\<lambda>v. \<not> isna v) ycs)))"
      by (simp add: opciones_year_def)
    then have "length ys = 4 \<and> (hd ys = 0x31 \<or> hd ys = 0x32)" by (rule years_shape)
    then show "py_in ys (strip (str_of yv)) \<Longrightarrow> \<not> isna yv"
      using year_not_in_missing by blast
  qed
  from a b show ?thesis unfolding keep_row_def by auto
qed

text \<open>
  C6. When the two filter columns are found and each name occurs once, the filter keeps
  exactly the rows that pass both tests, in their order and with the columns unchanged:
  the program test holds when the selection is \<open>Todos los programas\<close> or equals the
  row's trimmed program text, the year test when the selection is \<open>Todos\<close> or occurs in
  the row's trimmed year text. The selections are those of the select boxes, which
  return one of the options they are given.
\<close>

theorem filter_engine:
  assumes "detect_program_year_columns df = Inr (prog_col, year_col)"
    and "positions df prog_col = [i]" and "positions df year_col = [j]"
    and "programa_sel = selectbox_programa (opciones_prog (map (\<lambda>r. cell r i) (rows df)))"
    and "year_sel = selectbox_year (opciones_year (map (\<lambda>r. cell r j) (rows df)))"
    and "programa_sel \<in> set (opciones_prog (map (\<lambda>r. cell r i) (rows df)))"
    and "year_sel \<in> set (opciones_year (map (\<lambda>r. cell r j) (rows df)))"
  shows "get_program_year_filters selectbox_programa selectbox_year df =
     Inr (\<lparr>columns = columns df,
           rows = filter (\<lambda>r. (programa_sel = ALL_PROGRAMS \<or> strip (str_of (cell r i)) = programa_sel)
                             \<and> (year_sel = ALL_YEARS \<or> py_in year_sel (strip (str_of (cell r j)))))
                    (rows df)\<rparr>,
          programa_sel, year_sel)"
proof -
  let ?pc = "map (\<lambda>r. cell r i) (rows df)"
  let ?yc = "map (\<lambda>r. cell r j) (rows df)"
  have ps: "replace_null_like (map (\<lambda>v. strip (str_of v)) ?pc) =
      map (\<lambda>r. if strip (str_of (cell r i)) \<in> set null_like then None
                else Some (strip (str_of (cell r i)))) (rows df)"
    by (simp add: replace_null_like_def comp_def)
  have "filter_rows programa_sel year_sel (replace_null_like (map (\<lambda>v. strip (str_of v)) ?pc)) ?yc (rows df) =
      filter (\<lambda>r. keep_row programa_sel year_sel
                (if strip (str_of (cell r i)) \<in> set null_like then None
                 else Some (strip (str_of (cell r i)))) (cell r j)) (rows df)"
    unfolding ps by (rule filter_rows_cells)
  also have "\<dots> = filter (\<lambda>r. (programa_sel = ALL_PROGRAMS \<or> strip (str_of (cell r i)) = programa_sel)
                             \<and> (year_sel = ALL_YEARS \<or> py_in year_sel (strip (str_of (cell r j)))))
                    (rows df)"
    using keep_row_valid [OF assms(6,7)] by simp
  finally have f: "filter_rows programa_sel year_sel
      (replace_null_like (map (\<lambda>v. strip (str_of v)) ?pc)) ?yc (rows df) =
      filter (\<lambda>r. (programa_sel = ALL_PROGRAMS \<or> strip (str_of (cell r i)) = programa_sel)
                             \<and> (year_sel = ALL_YEARS \<or> py_in year_sel (strip (str_of (cell r j)))))
                    (rows df)" .
  have "get_program_year_filters selectbox_programa selectbox_year df =
      Inr (df\<lparr>rows := filter_rows programa_sel year_sel
                 (replace_null_like (map (\<lambda>v. strip (str_of v)) ?pc)) ?yc (rows df)\<rparr>,
           programa_sel, year_sel)"
    using assms(1-5) by (simp add: get_program_year_filters_def getitem_def)
  with f show ?thesis by simp
qed

lemmas filter_eval =
  survey_frame_def positions_def cell_def opciones_prog_def opciones_year_def
  programas_def years_def unique_def replace_null_like_def null_like_def
  ALL_PROGRAMS_def ALL_YEARS_def int_of_digits_def is_digit_def digit_value_def digit_zeros_def

lemma survey_columns:
  "detect_program_year_columns survey_frame =
     Inr (ascii ''Programa'', Ano_Egreso)"
  "positions survey_frame (ascii ''Programa'') = [0]"
  "positions survey_frame (Ano_Egreso) = [1]"
  by (simp_all add: detect_program_year_columns_def survey_frame_def positions_def
      detect_eval text_eval)

lemma survey_options:
  "opciones_prog (map (\<lambda>r. cell r 0) (rows survey_frame)) =
     [ascii ''Todos los programas'', ascii ''Ing'', ascii ''Med'']"
  "opciones_year (map (\<lambda>r. cell r 1) (rows survey_frame)) =
     [ascii ''Todos'', ascii ''2019'', ascii ''2020'', ascii ''2021'']"
  by (simp_all add: filter_eval text_eval)

theorem filter_engine_witness:
  "get_program_year_filters (\<lambda>options. ascii ''Todos los programas'') (\<lambda>options. ascii ''2020'')
     survey_frame =
     Inr (\<lparr>columns = columns survey_frame,
           rows = [[Str (ascii ''Ing''), Str (ascii ''2019-2020''), Str (ascii ''Si''), Str (ascii ''4'')],
                   [Str (ascii ''Ing ''), Str (ascii ''2020''), Str [], Str (ascii ''3,6'')]]\<rparr>,
          ascii ''Todos los programas'', ascii ''2020'') \<and>
   get_program_year_filters (\<lambda>options. ascii ''Ing'') (\<lambda>options. ascii ''Todos'')
     survey_frame =
     Inr (\<lparr>columns = columns survey_frame,
           rows = [[Str (ascii ''Ing''), Str (ascii ''2019-2020''), Str (ascii ''Si''), Str (ascii ''4'')],
                   [Str (ascii ''Ing ''), Str (ascii ''2020''), Str [], Str (ascii ''3,6'')]]\<rparr>,
          ascii ''Ing'', ascii ''Todos'')"
proof -
  have 1: "ascii ''Todos los programas'' \<in> set (opciones_prog (map (\<lambda>r. cell r 0) (rows survey_frame)))"
    "ascii ''Ing'' \<in> set (opciones_prog (map (\<lambda>r. cell r 0) (rows survey_frame)))"
    "ascii ''2020'' \<in> set (opciones_year (map (\<lambda>r. cell r 1) (rows survey_frame)))"
    "ascii ''Todos'' \<in> set (opciones_year (map (\<lambda>r. cell r 1) (rows survey_frame)))"
    unfolding survey_options by simp_all
  have a: "filter (\<lambda>r. (ascii ''Todos los programas'' = ALL_PROGRAMS
                \<or> strip (str_of (cell r 0)) = ascii ''Todos los programas'')
              \<and> (ascii ''2020'' = ALL_YEARS \<or> py_in (ascii ''2020'') (strip (str_of (cell r 1)))))
          (rows survey_frame) =
        [[Str (ascii ''Ing''), Str (ascii ''2019-2020''), Str (ascii ''Si''), Str (ascii ''4'')],
         [Str (ascii ''Ing ''), Str (ascii ''2020''), Str [], Str (ascii ''3,6'')]]"
    by (simp add: survey_frame_def cell_def ALL_PROGRAMS_def ALL_YEARS_def text_eval)
  have b: "filter (\<lambda>r. (ascii ''Ing'' = ALL_PROGRAMS \<or> strip (str_of (cell r 0)) = ascii ''Ing'')
              \<and> (ascii ''Todos'' = ALL_YEARS \<or> py_in (ascii ''Todos'') (strip (str_of (cell r 1)))))
          (rows survey_frame) =
        [[Str (ascii ''Ing''), Str (ascii ''2019-2020''), Str (ascii ''Si''), Str (ascii ''4'')],
         [Str (ascii ''Ing ''), Str (ascii ''2020''), Str [], Str (ascii ''3,6'')]]"
    by (simp add: survey_frame_def cell_def ALL_PROGRAMS_def ALL_YEARS_def text_eval)
  have "get_program_year_filters (\<lambda>options. ascii ''Todos los programas'')
      (\<lambda>options. ascii ''2020'') survey_frame =
     Inr (\<lparr>columns = columns survey_frame,
           rows = filter (\<lambda>r. (ascii ''Todos los programas'' = ALL_PROGRAMS
                \<or> strip (str_of (cell r 0)) = ascii ''Todos los programas'')
              \<and> (ascii ''2020'' = ALL_YEARS \<or> py_in (ascii ''2020'') (strip (str_of (cell r 1)))))
          (rows survey_frame)\<rparr>,
          ascii ''Todos los programas'', ascii ''2020'')"
    by (rule filter_engine [OF survey_columns]) (rule refl 1)+
  moreover have "get_program_year_filters (\<lambda>options. ascii ''Ing'')
      (\<lambda>options. ascii ''Todos'') survey_frame =
     Inr (\<lparr>columns = columns survey_frame,
           rows = filter (\<lambda>r. (ascii ''Ing'' = ALL_PROGRAMS \<or> strip (str_of (cell r 0)) = ascii ''Ing'')
              \<and> (ascii ''Todos'' = ALL_YEARS \<or> py_in (ascii ''Todos'') (strip (str_of (cell r 1)))))
          (rows survey_frame)\<rparr>,
          ascii ''Ing'', ascii ''Todos'')"
    by (rule filter_engine [OF survey_columns]) (rule refl 1)+
  ultimately show ?thesis unfolding a b by simp
qed

section \<open>The filter sentinels\<close>

lemma replace_null_like_iff:
  "Some p \<in> set (replace_null_like s) \<longleftrightarrow> p \<in> set s \<and> p \<notin> set null_like"
  by (auto simp: replace_null_like_def)

lemma sentinel_not_null_like: "ALL_PROGRAMS \<notin> set null_like"
  by (simp add: ALL_PROGRAMS_def null_like_def ascii_def)

text \<open>
  C7. On the year axis the sentinel \<open>Todos\<close> is never one of the concrete options,
  which are four characters long. On the program axis the sentinel
  \<open>Todos los programas\<close> is an ordinary string: it is among the concrete options
  exactly when some row has it as trimmed program text, and selecting it keeps every row
  on the program axis, whichever of the two equal options was meant.
\<close>

theorem sentinel_options:
  "ALL_YEARS \<notin> set (years years_raw) \<and>
   (ALL_PROGRAMS \<in> set (programas (replace_null_like (map (\<lambda>v. strip (str_of v)) prog_cells)))
      \<longleftrightarrow> (\<exists>v\<in>set prog_cells. strip (str_of v) = ALL_PROGRAMS)) \<and>
   keep_row ALL_PROGRAMS year_sel prog_entry year_cell = keep_row ALL_PROGRAMS year_sel None year_cell \<and>
   keep_row ALL_PROGRAMS ALL_YEARS prog_entry year_cell"
proof (intro conjI)
  show "ALL_YEARS \<notin> set (years years_raw)"
  proof
    assume "ALL_YEARS \<in> set (years years_raw)"
    then have "length ALL_YEARS = 4" using years_shape by blast
    then show False by (simp add: ALL_YEARS_def ascii_def)
  qed
  show "ALL_PROGRAMS \<in> set (programas (replace_null_like (map (\<lambda>v. strip (str_of v)) prog_cells)))
      \<longleftrightarrow> (\<exists>v\<in>set prog_cells. strip (str_of v) = ALL_PROGRAMS)"
  proof -
    have "ALL_PROGRAMS \<in> set (programas (replace_null_like (map (\<lambda>v. strip (str_of v)) prog_cells)))
        \<longleftrightarrow> ALL_PROGRAMS \<in> set (map (\<lambda>v. strip (str_of v)) prog_cells)"
      using sentinel_not_null_like by (simp add: set_programas replace_null_like_iff)
    also have "\<dots> \<longleftrightarrow> (\<exists>v\<in>set prog_cells. strip (str_of v) = ALL_PROGRAMS)"
      by (simp only: set_map image_iff eq_commute [of ALL_PROGRAMS])
    finally show ?thesis .
  qed
  show "keep_row ALL_PROGRAMS year_sel prog_entry year_cell =
      keep_row ALL_PROGRAMS year_sel None year_cell"
    by (simp add: keep_row_def)
  show "keep_row ALL_PROGRAMS ALL_YEARS prog_entry year_cell"
    by (simp add: keep_row_def)
qed

lemma sentinel_columns:
  "detect_program_year_columns sentinel_frame =
     Inr (ascii ''Programa'', Ano_Egreso)"
  "positions sentinel_frame (ascii ''Programa'') = [0]"
  "positions sentinel_frame (Ano_Egreso) = [1]"
  by (simp_all add: detect_program_year_columns_def sentinel_frame_def positions_def
      detect_eval text_eval)

lemma sentinel_frame_options:
  "opciones_prog (map (\<lambda>r. cell r 0) (rows sentinel_frame)) =
     [ascii ''Todos los programas'', ascii ''Ing'', ascii ''Todos los programas'']"
  "opciones_year (map (\<lambda>r. cell r 1) (rows sentinel_frame)) =
     [ascii ''Todos'', ascii ''2020'', ascii ''2021'']"
  by (simp_all add: filter_eval sentinel_frame_def text_eval)

text \<open>
  In \<open>sentinel_frame\<close> the third program option is the answer of the first graduate.
  Choosing it returns both rows, the one of program \<open>Ing\<close> included.
\<close>

theorem sentinel_collides:
  "opciones_prog (map (\<lambda>r. cell r 0) (rows sentinel_frame)) =
     [ALL_PROGRAMS, ascii ''Ing'', ALL_PROGRAMS] \<and>
   get_program_year_filters (\<lambda>options. options ! 2) (\<lambda>options. options ! 0) sentinel_frame =
     Inr (\<lparr>columns = columns sentinel_frame,
           rows = [[Str (ascii ''Todos los programas''), Str (ascii ''2020'')],
                   [Str (ascii ''Ing''), Str (ascii ''2021'')]]\<rparr>,
          ascii ''Todos los programas'', ascii ''Todos'')"
proof -
  have "get_program_year_filters (\<lambda>options. options ! 2) (\<lambda>options. options ! 0) sentinel_frame =
     Inr (sentinel_frame\<lparr>rows :=
            filter_rows (ascii ''Todos los programas'') (ascii ''Todos'')
              (replace_null_like (map (\<lambda>v. strip (str_of v)) (map (\<lambda>r. cell r 0) (rows sentinel_frame))))
              (map (\<lambda>r. cell r 1) (rows sentinel_frame)) (rows sentinel_frame)\<rparr>,
          ascii ''Todos los programas'', ascii ''Todos'')"
    by (simp add: get_program_year_filters_def getitem_def sentinel_columns
        sentinel_frame_options opciones_year_def ALL_YEARS_def)
  moreover have "filter_rows (ascii ''Todos los programas'') (ascii ''Todos'')
      (replace_null_like (map (\<lambda>v. strip (str_of v)) (map (\<lambda>r. cell r 0) (rows sentinel_frame))))
      (map (\<lambda>r. cell r 1) (rows sentinel_frame)) (rows sentinel_frame) =
     [[Str (ascii ''Todos los programas''), Str (ascii ''2020'')],
      [Str (ascii ''Ing''), Str (ascii ''2021'')]]"
    by (simp add: filter_rows_def keep_row_def ALL_PROGRAMS_def ALL_YEARS_def sentinel_frame_def
        replace_null_like_def)
  ultimately show ?thesis
    by (simp add: sentinel_frame_options ALL_PROGRAMS_def)
qed

theorem sentinel_options_witness:
  "ALL_YEARS \<notin> set (years [ascii ''2019-2020'', ascii ''2021'']) \<and>
   ALL_PROGRAMS \<notin> set (programas (replace_null_like
      (map (\<lambda>v. strip (str_of v)) [Str (ascii ''Ing''), Str (ascii ''Med '')]))) \<and>
   ALL_PROGRAMS \<in> set (programas (replace_null_like
      (map (\<lambda>v. strip (str_of v)) [Str (ascii ''Ing''), Str (ascii '' Todos los programas'')])))"
proof -
  have "\<not> (\<exists>v\<in>set [Str (ascii ''Ing''), Str (ascii ''Med '')]. strip (str_of v) = ALL_PROGRAMS)"
    by (simp add: ALL_PROGRAMS_def text_eval)
  moreover have "\<exists>v\<in>set [Str (ascii ''Ing''), Str (ascii '' Todos los programas'')].
      strip (str_of v) = ALL_PROGRAMS"
    by (simp add: ALL_PROGRAMS_def text_eval)
  ultimately show ?thesis
    using sentinel_options [of "[ascii ''2019-2020'', ascii ''2021'']"
        "[Str (ascii ''Ing''), Str (ascii ''Med '')]"]
      sentinel_options [of "[]" "[Str (ascii ''Ing''), Str (ascii '' Todos los programas'')]"]
    by blast
qed

section \<open>Counting values\<close>

lemma distinct_unique: "distinct (unique xs)"
  by (simp add: unique_def)

lemma sum_list_insort_key:
  "sum_list (map g (insort_key f x xs)) = (g :: 'a \<Rightarrow> nat) x + sum_list (map g xs)"
  by (induction xs) simp_all

lemma sum_list_sort_key: "sum_list (map g (sort_key f xs)) = sum_list (map (g :: 'a \<Rightarrow> nat) xs)"
  by (induction xs) (simp_all add: sum_list_insort_key)

lemma set_value_counts: "set (value_counts xs) = (\<lambda>v. (v, count_list xs v)) ` set xs"
  by (simp add: value_counts_def set_unique)

lemma map_fst_insort_key:
  "set (map fst (insort_key f x xs)) = insert (fst x) (set (map fst xs))"
  by (simp add: set_insort_key)

lemma distinct_fst_insort_key:
  "distinct (map fst (insort_key f x xs)) \<longleftrightarrow> fst x \<notin> fst ` set xs \<and> distinct (map fst xs)"
  by (induction xs) (auto simp: set_insort_key)

lemma distinct_fst_sort_key: "distinct (map fst (sort_key f xs)) = distinct (map fst xs)"
  by (induction xs) (simp_all add: distinct_fst_insort_key)

lemma distinct_value_counts: "distinct (map fst (value_counts xs))"
  by (simp add: value_counts_def distinct_fst_sort_key comp_def distinct_unique)

lemma sum_value_counts: "sum_list (map snd (value_counts xs)) = length xs"
proof -
  have "sum_list (map snd (value_counts xs)) = sum_list (map (count_list xs) (unique xs))"
    by (simp add: value_counts_def sum_list_sort_key comp_def)
  also have "\<dots> = sum (count_list xs) (set (unique xs))"
    using distinct_unique by (rule sum_list_distinct_conv_sum_set)
  also have "\<dots> = length xs"
    by (simp add: set_unique sum_count_set)
  finally show ?thesis .
qed


section \<open>Yes/no questions\<close>

lemma dropna_filter: "dropna s = filter (\<lambda>v. v \<noteq> PyNone \<and> v \<noteq> NaN) s"
proof -
  have "(\<not> isna v) = (v \<noteq> PyNone \<and> v \<noteq> NaN)" for v by (cases v) simp_all
  then show ?thesis by (simp add: dropna_def)
qed

lemma strip_last: "strip w \<noteq> [] \<Longrightarrow> \<not> isspace (last (strip w))"
  using trimmed_strip [of w] by (simp add: trimmed_def)

lemma re_match_stripped:
  "re_match_ignorecase alternatives (strip w) \<longleftrightarrow>
     (\<exists>a\<in>set alternatives. match_literal a (strip w))"
proof -
  have "\<not> (strip w \<noteq> [] \<and> last (strip w) = 0x0A)"
  proof
    assume a: "strip w \<noteq> [] \<and> last (strip w) = 0x0A"
    have "isspace 0x0A" by (simp add: isspace_def)
    with a strip_last [of w] show False by simp
  qed
  then show ?thesis by (auto simp: re_match_ignorecase_def list_ex_iff)
qed

lemma yes_no_disjoint:
  "a \<in> set yes_pattern \<Longrightarrow> b \<in> set no_pattern \<Longrightarrow> match_literal a v \<Longrightarrow>
     \<not> match_literal b v"
  by (auto simp: yes_pattern_def no_pattern_def ascii_def match_literal_def list_all2_Cons1
      ignorecase_class_def)

lemma SI_matches:
  "match_literal (ascii ''s'' @ [0xED]) SI" "ascii ''s'' @ [0xED] \<in> set yes_pattern"
  by (simp_all add: SI_def yes_pattern_def ascii_def match_literal_def ignorecase_class_def)

lemma NO_matches: "match_literal (ascii ''no'') NO" "ascii ''no'' \<in> set no_pattern"
  by (simp_all add: NO_def no_pattern_def ascii_def match_literal_def ignorecase_class_def)

lemma SI_not_NO: "SI \<noteq> NO"
  by (simp add: SI_def NO_def ascii_def)

lemma binary_label_cases:
  "binary_label v = SI \<or> binary_label v = NO \<or> binary_label v = v"
  by (simp add: binary_label_def)

lemma binary_label_SI:
  "binary_label (strip w) = SI \<longleftrightarrow> (\<exists>a\<in>set yes_pattern. match_literal a (strip w))"
proof
  assume l: "binary_label (strip w) = SI"
  show "\<exists>a\<in>set yes_pattern. match_literal a (strip w)"
  proof (rule ccontr)
    assume n: "\<not> (\<exists>a\<in>set yes_pattern. match_literal a (strip w))"
    with l SI_not_NO have "strip w = SI"
      by (simp add: binary_label_def re_match_stripped split: if_splits)
    with SI_matches n show False by auto
  qed
next
  assume "\<exists>a\<in>set yes_pattern. match_literal a (strip w)"
  then show "binary_label (strip w) = SI" by (simp add: binary_label_def re_match_stripped)
qed

lemma binary_label_NO:
  "binary_label (strip w) = NO \<longleftrightarrow> (\<exists>a\<in>set no_pattern. match_literal a (strip w))"
proof
  assume l: "binary_label (strip w) = NO"
  show "\<exists>a\<in>set no_pattern. match_literal a (strip w)"
  proof (rule ccontr)
    assume n: "\<not> (\<exists>a\<in>set no_pattern. match_literal a (strip w))"
    with l SI_not_NO have "strip w = NO"
      by (simp add: binary_label_def re_match_stripped split: if_splits)
    with NO_matches n show False by auto
  qed
next
  assume m: "\<exists>a\<in>set no_pattern. match_literal a (strip w)"
  with yes_no_disjoint have "\<not> (\<exists>a\<in>set yes_pattern. match_literal a (strip w))" by blast
  with m show "binary_label (strip w) = NO" by (simp add: binary_label_def re_match_stripped)
qed

text \<open>
  C4. On a column of the frame, \<open>chart_binary\<close> keeps the cells that are neither
  \<open>None\<close> nor \<open>NaN\<close>; it reports no data when none is left, and otherwise charts the
  value counts of the labels of the trimmed cells. A trimmed value is labelled \<open>S\<close>
  with i acute exactly when it matches one of \<open>si\<close>, \<open>s\<close> with i acute, \<open>true\<close>,
  \<open>1\<close>, \<open>x\<close> character by character under \<open>re.IGNORECASE\<close>, it is labelled
  \<open>No\<close> exactly when it so matches \<open>no\<close>, \<open>false\<close> or \<open>0\<close>, and any other
  value is its own label. Each label occurs once in the table, with the number of kept
  cells carrying it, and the counts add up to the number of cells that are neither
  \<open>None\<close> nor \<open>NaN\<close>.
\<close>

theorem chart_binary_distribution:
  assumes "getitem df col = Inr (Series s)"
  shows "chart_binary df col =
       (if filter (\<lambda>v. v \<noteq> PyNone \<and> v \<noteq> NaN) s = [] then Inr [Info SIN_DATOS]
        else Inr [Chart (value_counts
                           (map (\<lambda>v. binary_label (strip (str_of v)))
                              (filter (\<lambda>v. v \<noteq> PyNone \<and> v \<noteq> NaN) s)))]) \<and>
     (\<forall>(l, n) \<in> set (value_counts
                        (map (\<lambda>v. binary_label (strip (str_of v)))
                           (filter (\<lambda>v. v \<noteq> PyNone \<and> v \<noteq> NaN) s))).
        (l = SI \<or> l = NO \<or>
         l \<in> set (map (\<lambda>v. strip (str_of v))
                    (filter (\<lambda>v. v \<noteq> PyNone \<and> v \<noteq> NaN) s))) \<and>
        n = length (filter (\<lambda>v. v \<noteq> PyNone \<and> v \<noteq> NaN \<and>
                             binary_label (strip (str_of v)) = l) s)) \<and>
     distinct (map fst (value_counts
                          (map (\<lambda>v. binary_label (strip (str_of v)))
                             (filter (\<lambda>v. v \<noteq> PyNone \<and> v \<noteq> NaN) s)))) \<and>
     sum_list (map snd (value_counts
                          (map (\<lambda>v. binary_label (strip (str_of v)))
                             (filter (\<lambda>v. v \<noteq> PyNone \<and> v \<noteq> NaN) s)))) =
       length (filter (\<lambda>v. v \<noteq> PyNone \<and> v \<noteq> NaN) s) \<and>
     (binary_label (strip w) = SI \<longleftrightarrow> (\<exists>a\<in>set yes_pattern. match_literal a (strip w))) \<and>
     (binary_label (strip w) = NO \<longleftrightarrow> (\<exists>a\<in>set no_pattern. match_literal a (strip w))) \<and>
     (\<not> (\<exists>a\<in>set yes_pattern. match_literal a (strip w)) \<and>
      \<not> (\<exists>a\<in>set no_pattern. match_literal a (strip w)) \<longrightarrow>
        binary_label (strip w) = strip w)"
proof (intro conjI)
  let ?kept = "filter (\<lambda>v. v \<noteq> PyNone \<and> v \<noteq> NaN) s"
  let ?labels = "map (\<lambda>v. binary_label (strip (str_of v))) ?kept"
  show "chart_binary df col =
       (if ?kept = [] then Inr [Info SIN_DATOS] else Inr [Chart (value_counts ?labels)])"
    using assms by (simp add: chart_binary_def dropna_filter comp_def)
  show "\<forall>(l, n) \<in> set (value_counts ?labels).
        (l = SI \<or> l = NO \<or> l \<in> set (map (\<lambda>v. strip (str_of v)) ?kept)) \<and>
        n = length (filter (\<lambda>v. v \<noteq> PyNone \<and> v \<noteq> NaN \<and>
                             binary_label (strip (str_of v)) = l) s)"
  proof (clarify, intro conjI)
    fix l n assume "(l, n) \<in> set (value_counts ?labels)"
    then have l: "l \<in> set ?labels" and n: "n = count_list ?labels l"
      by (auto simp: set_value_counts)
    from l obtain v where v: "v \<in> set ?kept" "l = binary_label (strip (str_of v))"
      by auto
    with binary_label_cases [of "strip (str_of v)"]
    show "l = SI \<or> l = NO \<or> l \<in> set (map (\<lambda>v. strip (str_of v)) ?kept)"
      by auto
    have "count_list ?labels l =
        length (filter (\<lambda>v. binary_label (strip (str_of v)) = l) ?kept)"
      by (simp add: count_list_eq_length_filter filter_map comp_def eq_commute)
    also have "\<dots> = length (filter (\<lambda>v. v \<noteq> PyNone \<and> v \<noteq> NaN \<and>
                             binary_label (strip (str_of v)) = l) s)"
      by (simp add: conj_ac)
    finally show "n = length (filter (\<lambda>v. v \<noteq> PyNone \<and> v \<noteq> NaN \<and>
                             binary_label (strip (str_of v)) = l) s)"
      using n by simp
  qed
  show "distinct (map fst (value_counts ?labels))" by (rule distinct_value_counts)
  show "sum_list (map snd (value_counts ?labels)) = length ?kept"
    by (simp add: sum_value_counts)
  show "binary_label (strip w) = SI \<longleftrightarrow> (\<exists>a\<in>set yes_pattern. match_literal a (strip w))"
    by (rule binary_label_SI)
  show "binary_label (strip w) = NO \<longleftrightarrow> (\<exists>a\<in>set no_pattern. match_literal a (strip w))"
    by (rule binary_label_NO)
  show "\<not> (\<exists>a\<in>set yes_pattern. match_literal a (strip w)) \<and>
      \<not> (\<exists>a\<in>set no_pattern. match_literal a (strip w)) \<longrightarrow>
        binary_label (strip w) = strip w"
    by (simp add: binary_label_def re_match_stripped)
qed

lemmas chart_eval =
  dropna_def value_counts_def unique_def head_def binary_label_def re_match_ignorecase_def
  match_literal_def ignorecase_class_def
  yes_pattern_def no_pattern_def SI_def NO_def SIN_DATOS_def

lemma survey_getitem:
  "getitem survey_frame (ascii ''Empleado'') =
     Inr (Series [Str (ascii ''Si''), Str (ascii ''no''), Str []])"
  "getitem survey_frame (ascii ''Nota'') =
     Inr (Series [Str (ascii ''4''), Str (ascii ''5''), Str (ascii ''3,6'')])"
  by (simp_all add: getitem_def positions_def survey_frame_def cell_def ascii_def Ano_Egreso_def)

lemma answers_getitem:
  "getitem answers_frame (ascii ''Empleado'') =
     Inr (Series [Str (ascii ''Si''), NaN, Str (ascii '' s'' @ [0xED] @ ascii '' ''),
                  Str [0x17F, 0x69], PyNone, Str (ascii ''NO''), Str (ascii ''no''),
                  Str (ascii ''tal vez'')])"
  by (simp add: getitem_def positions_def answers_frame_def cell_def)

theorem chart_binary_distribution_witness:
  "chart_binary answers_frame (ascii ''Empleado'') =
     Inr [Chart [(ascii ''S'' @ [0xED], 3), (ascii ''No'', 2), (ascii ''tal vez'', 1)]] \<and>
   sum_list (map snd [(ascii ''S'' @ [0xED], 3 :: nat), (ascii ''No'', 2),
                      (ascii ''tal vez'', 1)]) = 6 \<and>
   length [Str (ascii ''Si''), NaN, Str (ascii '' s'' @ [0xED] @ ascii '' ''),
           Str [0x17F, 0x69], PyNone, Str (ascii ''NO''), Str (ascii ''no''),
           Str (ascii ''tal vez'')] = 8 \<and>
   binary_label (strip [0x17F, 0x69]) = ascii ''S'' @ [0xED]"
proof -
  let ?s = "[Str (ascii ''Si''), NaN, Str (ascii '' s'' @ [0xED] @ ascii '' ''),
             Str [0x17F, 0x69], PyNone, Str (ascii ''NO''), Str (ascii ''no''),
             Str (ascii ''tal vez'')]"
  have k: "filter (\<lambda>v. v \<noteq> PyNone \<and> v \<noteq> NaN) ?s =
      [Str (ascii ''Si''), Str (ascii '' s'' @ [0xED] @ ascii '' ''), Str [0x17F, 0x69],
       Str (ascii ''NO''), Str (ascii ''no''), Str (ascii ''tal vez'')]"
    by simp
  have v: "value_counts (map (\<lambda>v. binary_label (strip (str_of v)))
      [Str (ascii ''Si''), Str (ascii '' s'' @ [0xED] @ ascii '' ''), Str [0x17F, 0x69],
       Str (ascii ''NO''), Str (ascii ''no''), Str (ascii ''tal vez'')]) =
        [(ascii ''S'' @ [0xED], 3), (ascii ''No'', 2), (ascii ''tal vez'', 1)]"
    by (simp add: chart_eval text_eval)
  have m: "\<exists>a\<in>set yes_pattern. match_literal a (strip [0x17F, 0x69])"
    by (simp add: chart_eval text_eval)
  from chart_binary_distribution [OF answers_getitem, of "[0x17F, 0x69]"]
  have "chart_binary answers_frame (ascii ''Empleado'') =
       (if filter (\<lambda>v. v \<noteq> PyNone \<and> v \<noteq> NaN) ?s = [] then Inr [Info SIN_DATOS]
        else Inr [Chart (value_counts (map (\<lambda>v. binary_label (strip (str_of v)))
                    (filter (\<lambda>v. v \<noteq> PyNone \<and> v \<noteq> NaN) ?s)))])"
    and "binary_label (strip [0x17F, 0x69]) = SI \<longleftrightarrow>
         (\<exists>a\<in>set yes_pattern. match_literal a (strip [0x17F, 0x69]))"
    by blast+
  with m show ?thesis unfolding k v by (simp add: SI_def)
qed


section \<open>The 1 to 5 scale\<close>
















section \<open>Empty cells\<close>

lemma binary_label_empty: "binary_label x = [] \<longleftrightarrow> x = []"
  by (auto simp: binary_label_def SI_def NO_def ascii_def re_match_ignorecase_def
      match_literal_def yes_pattern_def no_pattern_def)

lemma strip_empty: "strip [] = []"
  by (simp add: strip_def)

lemma empty_cell_kept: "Str [] \<in> set s \<Longrightarrow> Str [] \<in> set (dropna s)"
  by (simp add: dropna_def)

lemma empty_in_categorical_serie:
  assumes "Str [] \<in> set s"
  shows "[] \<in> set (categorical_serie col s)"
proof -
  from assms have "Str [] \<in> set (dropna s)" by (rule empty_cell_kept)
  then have e: "[] \<in> set (map (\<lambda>v. strip (str_of v)) (dropna s))"
    by (force simp: strip_empty)
  have "normalize_beneficios (Str []) = []" by (simp add: norm_str_alt strip_def replace_nbsp_def)
  with e have "[] \<in> set (map (\<lambda>v. normalize_beneficios (Str v))
      (map (\<lambda>v. strip (str_of v)) (dropna s)))"
    by force
  with e show ?thesis by (simp add: categorical_serie_def)
qed

lemma value_counts_member:
  "x \<in> set xs \<Longrightarrow> (x, count_list xs x) \<in> set (value_counts xs) \<and> 0 < count_list xs x"
proof -
  assume x: "x \<in> set xs"
  then have "count_list xs x \<noteq> 0" by (simp add: count_list_0_iff)
  with x show ?thesis by (simp add: set_value_counts)
qed

lemma head_all: "int (length xs) \<le> n \<Longrightarrow> head n xs = xs"
  by (simp add: head_def)

text \<open>
  C10. The loader hands the raw cells on unchanged, and an empty string is not a missing
  value, so an empty cell passes \<open>dropna\<close>. In \<open>chart_binary\<close> it is then charted as
  the category of the empty string, counted with the other cells whose trimmed text is
  empty. In \<open>chart_categorical\<close> it is counted the same way in the value counts, and it
  is charted whenever the value counts have at most \<open>top_k\<close> entries; the chart shows
  only the first \<open>top_k\<close> of them.
\<close>

theorem empty_cell_category:
  assumes "getitem df col = Inr (Series s)" and "Str [] \<in> set s"
  shows "(header_row_idx raw = Some i \<longrightarrow>
        rows (load_data_with_header_detection raw df_default) = drop (i + 1) raw) \<and>
     \<not> isna (Str []) \<and> Str [] \<in> set (dropna s) \<and>
     (\<exists>d n. chart_binary df col = Inr [Chart d] \<and> ([], n) \<in> set d \<and> 0 < n \<and>
        n = length (filter (\<lambda>v. strip (str_of v) = []) (dropna s))) \<and>
     (\<exists>n. ([], n) \<in> set (value_counts (categorical_serie col s)) \<and> 0 < n \<and>
        n = count_list (categorical_serie col s) [] \<and>
        chart_categorical df col top_k =
          Inr [Chart (head top_k (value_counts (categorical_serie col s)))] \<and>
        (int (length (value_counts (categorical_serie col s))) \<le> top_k \<longrightarrow>
           chart_categorical df col top_k =
             Inr [Chart (value_counts (categorical_serie col s))]))"
proof (intro conjI)
  show "header_row_idx raw = Some i \<longrightarrow>
        rows (load_data_with_header_detection raw df_default) = drop (i + 1) raw"
    by (simp add: load_data_with_header_detection_def)
  show "\<not> isna (Str [])" by simp
  show k: "Str [] \<in> set (dropna s)" using assms(2) by (rule empty_cell_kept)
  let ?labels = "map binary_label (map (\<lambda>v. strip (str_of v)) (dropna s))"
  show "\<exists>d n. chart_binary df col = Inr [Chart d] \<and> ([], n) \<in> set d \<and> 0 < n \<and>
        n = length (filter (\<lambda>v. strip (str_of v) = []) (dropna s))"
  proof (intro exI conjI)
    from k have ne: "dropna s \<noteq> []" by auto
    with assms(1) show "chart_binary df col = Inr [Chart (value_counts ?labels)]"
      by (simp add: chart_binary_def)
    from k have "binary_label (strip (str_of (Str []))) \<in> set ?labels" by force
    moreover have "binary_label (strip (str_of (Str []))) = []"
      by (simp add: strip_empty binary_label_empty)
    ultimately have m: "[] \<in> set ?labels" by (simp only:)
    from value_counts_member [OF m]
    show "([], count_list ?labels []) \<in> set (value_counts ?labels)"
      "0 < count_list ?labels []"
      by simp_all
    show "count_list ?labels [] = length (filter (\<lambda>v. strip (str_of v) = []) (dropna s))"
      by (simp add: count_list_eq_length_filter filter_map comp_def binary_label_empty
          eq_commute [of "[]"])
  qed
  let ?serie = "categorical_serie col s"
  show "\<exists>n. ([], n) \<in> set (value_counts ?serie) \<and> 0 < n \<and> n = count_list ?serie [] \<and>
        chart_categorical df col top_k = Inr [Chart (head top_k (value_counts ?serie))] \<and>
        (int (length (value_counts ?serie)) \<le> top_k \<longrightarrow>
           chart_categorical df col top_k = Inr [Chart (value_counts ?serie)])"
  proof (intro exI conjI)
    have m: "[] \<in> set ?serie" using assms(2) by (rule empty_in_categorical_serie)
    from value_counts_member [OF m]
    show "([], count_list ?serie []) \<in> set (value_counts ?serie)"
      "0 < count_list ?serie []"
      by simp_all
    show "count_list ?serie [] = count_list ?serie []" by (rule refl)
    from m have "?serie \<noteq> []" by auto
    with assms(1) show c: "chart_categorical df col top_k =
        Inr [Chart (head top_k (value_counts ?serie))]"
      by (simp add: chart_categorical_def)
    show "int (length (value_counts ?serie)) \<le> top_k \<longrightarrow>
        chart_categorical df col top_k = Inr [Chart (value_counts ?serie)]"
      using c by (simp add: head_all)
  qed
qed

lemma survey_empleado_counts:
  "value_counts (categorical_serie (ascii ''Empleado'') [Str (ascii ''Si''), Str (ascii ''no''), Str []]) =
     [(ascii ''Si'', 1), (ascii ''no'', 1), ([], 1)]"
  by (simp add: categorical_serie_def PREGUNTA_BENEFICIOS_def chart_eval text_eval)

theorem empty_cell_category_witness:
  "(\<exists>d n. chart_binary survey_frame (ascii ''Empleado'') = Inr [Chart d] \<and> ([], n) \<in> set d \<and> 0 < n) \<and>
   chart_categorical survey_frame (ascii ''Empleado'') 10 =
     Inr [Chart [(ascii ''Si'', 1), (ascii ''no'', 1), ([], 1)]]"
proof -
  have m: "Str [] \<in> set [Str (ascii ''Si''), Str (ascii ''no''), Str []]" by simp
  have l: "int (length (value_counts (categorical_serie (ascii ''Empleado'')
      [Str (ascii ''Si''), Str (ascii ''no''), Str []]))) \<le> 10"
    unfolding survey_empleado_counts by simp
  from empty_cell_category [OF survey_getitem(1) m, of _ _ _ 10] l
  have "(\<exists>d n. chart_binary survey_frame (ascii ''Empleado'') = Inr [Chart d] \<and>
        ([], n) \<in> set d \<and> 0 < n) \<and>
     chart_categorical survey_frame (ascii ''Empleado'') 10 =
       Inr [Chart (value_counts (categorical_serie (ascii ''Empleado'')
         [Str (ascii ''Si''), Str (ascii ''no''), Str []]))]"
    by blast
  then show ?thesis unfolding survey_empleado_counts .
qed

text \<open>
  With the default \<open>top_k\<close> of 10, the chart of \<open>city_frame\<close> shows the ten cities
  and leaves the empty answer out.
\<close>

theorem empty_cell_cut_by_top_k:
  "getitem city_frame (ascii ''Ciudad'') = Inr (Series (map Str city_answers)) \<and>
   Str [] \<in> set (map Str city_answers) \<and>
   chart_categorical city_frame (ascii ''Ciudad'') 10 =
     Inr [Chart [(ascii ''Armenia'', 2), (ascii ''Bogota'', 2), (ascii ''Cali'', 2),
                 (ascii ''Dosquebradas'', 2), (ascii ''Envigado'', 2), (ascii ''Florencia'', 2),
                 (ascii ''Girardot'', 2), (ascii ''Honda'', 2), (ascii ''Ibague'', 2),
                 (ascii ''Jamundi'', 2)]]"
proof -
  have g: "getitem city_frame (ascii ''Ciudad'') = Inr (Series (map Str city_answers))"
    by (simp add: getitem_def positions_def city_frame_def cell_def comp_def)
  have m: "Str [] \<in> set (map Str city_answers)" by (simp add: city_answers_def)
  have s: "categorical_serie (ascii ''Ciudad'') (map Str city_answers) = city_answers"
    by (simp add: categorical_serie_def PREGUNTA_BENEFICIOS_def dropna_def city_answers_def
        text_eval)
  have v: "head 10 (value_counts city_answers) =
      [(ascii ''Armenia'', 2), (ascii ''Bogota'', 2), (ascii ''Cali'', 2),
       (ascii ''Dosquebradas'', 2), (ascii ''Envigado'', 2), (ascii ''Florencia'', 2),
       (ascii ''Girardot'', 2), (ascii ''Honda'', 2), (ascii ''Ibague'', 2),
       (ascii ''Jamundi'', 2)]"
    by (simp add: city_answers_def value_counts_def unique_def head_def ascii_def)
  have n: "city_answers \<noteq> []" by (simp add: city_answers_def)
  have "chart_categorical city_frame (ascii ''Ciudad'') 10 =
      Inr [Chart (head 10 (value_counts city_answers))]"
    using n by (simp add: chart_categorical_def g s)
  with g m v show ?thesis by simp
qed

section \<open>The report driver: dispatch\<close>

lemma types_differ:
  "BINARIA \<noteq> CATEGORICA" "BINARIA \<noteq> MULTI" "BINARIA \<noteq> LIKERT" "BINARIA \<noteq> MULTI_COLS"
  "CATEGORICA \<noteq> BINARIA" "CATEGORICA \<noteq> MULTI" "CATEGORICA \<noteq> LIKERT"
  "CATEGORICA \<noteq> MULTI_COLS" "MULTI \<noteq> BINARIA" "MULTI \<noteq> CATEGORICA" "MULTI \<noteq> LIKERT"
  "MULTI \<noteq> MULTI_COLS" "LIKERT \<noteq> BINARIA" "LIKERT \<noteq> CATEGORICA" "LIKERT \<noteq> MULTI"
  "LIKERT \<noteq> MULTI_COLS" "MULTI_COLS \<noteq> BINARIA" "MULTI_COLS \<noteq> CATEGORICA"
  "MULTI_COLS \<noteq> MULTI" "MULTI_COLS \<noteq> LIKERT"
  by (simp_all add: BINARIA_def CATEGORICA_def MULTI_def LIKERT_def MULTI_COLS_def ascii_def)

lemma plain_no_notice: "plain out \<Longrightarrow> Info (UNSUPPORTED @ t) \<notin> set out"
proof
  assume p: "plain out" and m: "Info (UNSUPPORTED @ t) \<in> set out"
  then have "UNSUPPORTED @ t = [] \<or> hd (UNSUPPORTED @ t) \<noteq> 0x54"
    unfolding plain_def list_all_iff by fastforce
  then show False by (simp add: UNSUPPORTED_def ascii_def)
qed

lemma plain_sin_datos:
  "plain [Info SIN_DATOS]" "plain [Info NO_ESCALA]" "plain [Chart d]"
  "plain [ChartInt e, Caption c]"
  by (simp_all add: plain_def SIN_DATOS_def NO_ESCALA_def ascii_def)

lemma chart_binary_plain: "chart_binary df col = Inr out \<Longrightarrow> plain out"
  by (auto simp: chart_binary_def plain_sin_datos split: sum.splits item.splits if_splits)

lemma chart_categorical_plain: "chart_categorical df col k = Inr out \<Longrightarrow> plain out"
  by (auto simp: chart_categorical_def plain_sin_datos split: sum.splits item.splits if_splits)

lemma chart_multi_plain: "chart_multi df col k = Inr out \<Longrightarrow> plain out"
  by (auto simp: chart_multi_def plain_sin_datos split: sum.splits if_splits)

lemma chart_likert_plain: "chart_likert ops df col = Inr out \<Longrightarrow> plain out"
  by (auto simp: chart_likert_def likert_chart_def plain_sin_datos
      split: sum.splits option.splits if_splits)

lemma chart_multi_from_cols_plain: "chart_multi_from_cols nz df cols k = Inr out \<Longrightarrow> plain out"
  by (auto simp: chart_multi_from_cols_def plain_def ascii_def split: if_splits)

lemma dispatch_supported:
  assumes "qtype \<in> set supported_types" "dispatch ops nz k df q qtype = Inr out"
  shows "plain out"
proof -
  from assms(1) consider "qtype = BINARIA" | "qtype = CATEGORICA" | "qtype = MULTI"
    | "qtype = LIKERT" | "qtype = MULTI_COLS"
    by (auto simp: supported_types_def)
  then show ?thesis
  proof cases
    case 1
    with assms(2) show ?thesis by (simp add: dispatch_def chart_binary_plain)
  next
    case 2
    with assms(2) show ?thesis
      by (simp add: dispatch_def types_differ chart_categorical_plain)
  next
    case 3
    with assms(2) show ?thesis
      by (simp add: dispatch_def types_differ chart_multi_plain)
  next
    case 4
    with assms(2) show ?thesis
      by (simp add: dispatch_def types_differ chart_likert_plain)
  next
    case 5
    with assms(2) show ?thesis
      by (simp add: dispatch_def types_differ chart_multi_from_cols_plain)
  qed
qed

lemma dispatch_unsupported:
  "qtype \<notin> set supported_types \<Longrightarrow> dispatch ops nz k df q qtype = Inr [Info (UNSUPPORTED @ qtype)]"
  by (simp add: dispatch_def supported_types_def UNSUPPORTED_def)

lemma emit_Inr: "emit shown r = Inr out \<longleftrightarrow> (\<exists>shown2. r = Inr shown2 \<and> out = shown @ shown2)"
  by (auto simp: emit_def split: sum.splits)

lemma render_sections_reached:
  "fst ` set secs \<subseteq> S \<Longrightarrow>
     render_sections ops nz k df (filter (\<lambda>q. upper (q_section q) \<in> S) qs) secs =
     render_sections ops nz k df qs secs"
proof (induction secs)
  case Nil
  show ?case by simp
next
  case (Cons sec secs)
  then have "fst sec \<in> S" by simp
  then have f: "filter (\<lambda>q. upper (q_section q) = fst sec)
        (filter (\<lambda>q. upper (q_section q) \<in> S) qs) =
      filter (\<lambda>q. upper (q_section q) = fst sec) qs"
    by (induction qs) auto
  from Cons have ih: "render_sections ops nz k df (filter (\<lambda>q. upper (q_section q) \<in> S) qs) secs =
      render_sections ops nz k df qs secs"
    by simp
  show ?case by (simp only: render_sections.simps render_section_def f ih)
qed

text \<open>
  C8. A question whose type is not \<open>MULTI_COLS\<close> and whose column is not named or not in
  the filtered frame gets the missing-column warning and nothing else, whatever its type.
  Every other question gets its heading and is handed to the chart function of its
  upper-cased type (\<open>BINARIA\<close>, \<open>CATEGORICA\<close>, \<open>MULTI\<close>, \<open>LIKERT\<close>,
  \<open>MULTI_COLS\<close>), or gets the unsupported-type notice when the type is none of the
  five; among such questions the notice is shown exactly for the types outside the set.
  A question that returns, the one with the notice included, leaves the loop running
  over the questions after it. The loop only reaches the questions whose upper-cased
  section is one of \<open>A\<close> to \<open>E\<close>.
\<close>

theorem report_dispatch:
  "(upper (q_type q) \<noteq> MULTI_COLS \<and> column_missing df (q_column q) \<longrightarrow>
      render_question ops nonzero top_k df q =
        Inr [Warning (ascii ''La columna no existe en los datos: '' @ format_col (q_column q))]) \<and>
   (\<not> (upper (q_type q) \<noteq> MULTI_COLS \<and> column_missing df (q_column q)) \<longrightarrow>
      (upper (q_type q) = BINARIA \<longrightarrow>
         render_question ops nonzero top_k df q =
           emit [Markdown (ascii ''### '' @ q_label q)]
             (chart_binary df (col_name (q_column q)))) \<and>
      (upper (q_type q) = CATEGORICA \<longrightarrow>
         render_question ops nonzero top_k df q =
           emit [Markdown (ascii ''### '' @ q_label q)]
             (chart_categorical df (col_name (q_column q)) top_k)) \<and>
      (upper (q_type q) = MULTI \<longrightarrow>
         render_question ops nonzero top_k df q =
           emit [Markdown (ascii ''### '' @ q_label q)]
             (chart_multi df (col_name (q_column q)) top_k)) \<and>
      (upper (q_type q) = LIKERT \<longrightarrow>
         render_question ops nonzero top_k df q =
           emit [Markdown (ascii ''### '' @ q_label q)]
             (chart_likert ops df (col_name (q_column q)))) \<and>
      (upper (q_type q) = MULTI_COLS \<longrightarrow>
         render_question ops nonzero top_k df q =
           emit [Markdown (ascii ''### '' @ q_label q)]
             (chart_multi_from_cols nonzero df (q_columns q) top_k)) \<and>
      (upper (q_type q) \<notin> set supported_types \<longrightarrow>
         render_question ops nonzero top_k df q =
           Inr [Markdown (ascii ''### '' @ q_label q),
                Info (ascii ''Tipo no soportado: '' @ upper (q_type q))]) \<and>
      (render_question ops nonzero top_k df q = Inr out \<longrightarrow>
         (Info (ascii ''Tipo no soportado: '' @ upper (q_type q)) \<in> set out
            \<longleftrightarrow> upper (q_type q) \<notin> set supported_types))) \<and>
   (render_question ops nonzero top_k df q = Inr out \<longrightarrow>
      render_questions ops nonzero top_k df (q # qs) =
        emit out (render_questions ops nonzero top_k df qs)) \<and>
   report ops nonzero top_k df questions =
     report ops nonzero top_k df
       (filter (\<lambda>q. upper (q_section q) \<in> fst ` set section_titles) questions)"
proof (intro conjI impI)
  assume "upper (q_type q) \<noteq> MULTI_COLS \<and> column_missing df (q_column q)"
  then show "render_question ops nonzero top_k df q =
        Inr [Warning (ascii ''La columna no existe en los datos: '' @ format_col (q_column q))]"
    by (simp add: render_question_def)
next
  assume "\<not> (upper (q_type q) \<noteq> MULTI_COLS \<and> column_missing df (q_column q))"
    and "upper (q_type q) = BINARIA"
  then show "render_question ops nonzero top_k df q =
      emit [Markdown (ascii ''### '' @ q_label q)] (chart_binary df (col_name (q_column q)))"
    by (simp add: render_question_def dispatch_def types_differ)
next
  assume "\<not> (upper (q_type q) \<noteq> MULTI_COLS \<and> column_missing df (q_column q))"
    and "upper (q_type q) = CATEGORICA"
  then show "render_question ops nonzero top_k df q =
      emit [Markdown (ascii ''### '' @ q_label q)]
        (chart_categorical df (col_name (q_column q)) top_k)"
    by (simp add: render_question_def dispatch_def types_differ)
next
  assume "\<not> (upper (q_type q) \<noteq> MULTI_COLS \<and> column_missing df (q_column q))"
    and "upper (q_type q) = MULTI"
  then show "render_question ops nonzero top_k df q =
      emit [Markdown (ascii ''### '' @ q_label q)] (chart_multi df (col_name (q_column q)) top_k)"
    by (simp add: render_question_def dispatch_def types_differ)
next
  assume "\<not> (upper (q_type q) \<noteq> MULTI_COLS \<and> column_missing df (q_column q))"
    and "upper (q_type q) = LIKERT"
  then show "render_question ops nonzero top_k df q =
      emit [Markdown (ascii ''### '' @ q_label q)] (chart_likert ops df (col_name (q_column q)))"
    by (simp add: render_question_def dispatch_def types_differ)
next
  assume "\<not> (upper (q_type q) \<noteq> MULTI_COLS \<and> column_missing df (q_column q))"
    and "upper (q_type q) = MULTI_COLS"
  then show "render_question ops nonzero top_k df q =
      emit [Markdown (ascii ''### '' @ q_label q)]
        (chart_multi_from_cols nonzero df (q_columns q) top_k)"
    by (simp add: render_question_def dispatch_def types_differ)
next
  assume g: "\<not> (upper (q_type q) \<noteq> MULTI_COLS \<and> column_missing df (q_column q))"
    and u: "upper (q_type q) \<notin> set supported_types"
  from u have "upper (q_type q) \<noteq> MULTI_COLS" by (auto simp: supported_types_def)
  with g u show "render_question ops nonzero top_k df q =
      Inr [Markdown (ascii ''### '' @ q_label q),
           Info (ascii ''Tipo no soportado: '' @ upper (q_type q))]"
    by (simp add: render_question_def dispatch_unsupported emit_def UNSUPPORTED_def)
next
  assume g: "\<not> (upper (q_type q) \<noteq> MULTI_COLS \<and> column_missing df (q_column q))"
    and r: "render_question ops nonzero top_k df q = Inr out"
  from g r obtain shown where d: "dispatch ops nonzero top_k df q (upper (q_type q)) = Inr shown"
    and o: "out = Markdown (ascii ''### '' @ q_label q) # shown"
    by (auto simp: render_question_def emit_Inr)
  show "Info (ascii ''Tipo no soportado: '' @ upper (q_type q)) \<in> set out
      \<longleftrightarrow> upper (q_type q) \<notin> set supported_types"
  proof (cases "upper (q_type q) \<in> set supported_types")
    case True
    from True d have "plain shown" by (rule dispatch_supported)
    then have "Info (UNSUPPORTED @ upper (q_type q)) \<notin> set shown" by (rule plain_no_notice)
    with True o show ?thesis by (simp add: UNSUPPORTED_def)
  next
    case False
    with d have "shown = [Info (UNSUPPORTED @ upper (q_type q))]"
      by (simp add: dispatch_unsupported)
    with False o show ?thesis by (simp add: UNSUPPORTED_def)
  qed
next
  assume "render_question ops nonzero top_k df q = Inr out"
  then show "render_questions ops nonzero top_k df (q # qs) =
      emit out (render_questions ops nonzero top_k df qs)"
    by simp
next
  show "report ops nonzero top_k df questions =
     report ops nonzero top_k df
       (filter (\<lambda>q. upper (q_section q) \<in> fst ` set section_titles) questions)"
    by (simp add: report_def render_sections_reached)
qed


lemmas driver_eval =
  q_empleado_def q_comentarios_def q_nota_texto_def column_missing_def format_col_def
  col_name_def BINARIA_def CATEGORICA_def MULTI_def LIKERT_def MULTI_COLS_def
  supported_types_def

lemma survey_types:
  "upper (q_type q_empleado) = BINARIA"
  "upper (q_type q_nota_texto) = ascii ''TEXTO''"
  "upper (q_type q_comentarios) = ascii ''TEXTO''"
  "ascii ''TEXTO'' \<notin> set supported_types"
  "ascii ''TEXTO'' \<noteq> MULTI_COLS"
  by (simp_all add: driver_eval text_eval)

lemma survey_columns_present:
  "\<not> column_missing survey_frame (q_column q_empleado)"
  "\<not> column_missing survey_frame (q_column q_nota_texto)"
  "column_missing survey_frame (q_column q_comentarios)"
  by (simp_all add: driver_eval survey_frame_def ascii_def Ano_Egreso_def)

lemma survey_empleado_chart:
  "chart_binary survey_frame (col_name (q_column q_empleado)) =
     Inr [Chart [(ascii ''S'' @ [0xED], 1), (ascii ''No'', 1), ([], 1)]]"
proof -
  have "col_name (q_column q_empleado) = ascii ''Empleado''"
    by (simp add: q_empleado_def col_name_def)
  then have "chart_binary survey_frame (col_name (q_column q_empleado)) =
      Inr [Chart (value_counts (map binary_label (map (\<lambda>v. strip (str_of v))
        (dropna [Str (ascii ''Si''), Str (ascii ''no''), Str []]))))]"
    by (simp add: chart_binary_def survey_getitem dropna_def)
  also have "value_counts (map binary_label (map (\<lambda>v. strip (str_of v))
        (dropna [Str (ascii ''Si''), Str (ascii ''no''), Str []]))) =
      [(ascii ''S'' @ [0xED], 1), (ascii ''No'', 1), ([], 1)]"
    by (simp add: chart_eval text_eval)
  finally show ?thesis .
qed

theorem report_dispatch_witness:
  "render_question decimal_ops decimal_nonzero 10 survey_frame q_empleado =
     Inr [Markdown (ascii ''### Empleado''),
          Chart [(ascii ''S'' @ [0xED], 1), (ascii ''No'', 1), ([], 1)]] \<and>
   render_question decimal_ops decimal_nonzero 10 survey_frame q_nota_texto =
     Inr [Markdown (ascii ''### Nota''), Info (ascii ''Tipo no soportado: TEXTO'')] \<and>
   render_questions decimal_ops decimal_nonzero 10 survey_frame [q_nota_texto, q_empleado] =
     Inr [Markdown (ascii ''### Nota''), Info (ascii ''Tipo no soportado: TEXTO''),
          Markdown (ascii ''### Empleado''),
          Chart [(ascii ''S'' @ [0xED], 1), (ascii ''No'', 1), ([], 1)]]"
proof -
  have a: "render_question decimal_ops decimal_nonzero 10 survey_frame q_empleado =
      emit [Markdown (ascii ''### '' @ q_label q_empleado)]
        (chart_binary survey_frame (col_name (q_column q_empleado)))"
    using report_dispatch [of q_empleado survey_frame decimal_ops decimal_nonzero 10]
      survey_types(1) survey_columns_present(1)
    by blast
  have b: "render_question decimal_ops decimal_nonzero 10 survey_frame q_nota_texto =
      Inr [Markdown (ascii ''### '' @ q_label q_nota_texto),
           Info (ascii ''Tipo no soportado: '' @ upper (q_type q_nota_texto))]"
    using report_dispatch [of q_nota_texto survey_frame decimal_ops decimal_nonzero 10]
      survey_types(2,4) survey_columns_present(2)
    by simp
  have a': "render_question decimal_ops decimal_nonzero 10 survey_frame q_empleado =
     Inr [Markdown (ascii ''### Empleado''),
          Chart [(ascii ''S'' @ [0xED], 1), (ascii ''No'', 1), ([], 1)]]"
    unfolding a survey_empleado_chart by (simp add: emit_def q_empleado_def ascii_def)
  have b': "render_question decimal_ops decimal_nonzero 10 survey_frame q_nota_texto =
     Inr [Markdown (ascii ''### Nota''), Info (ascii ''Tipo no soportado: TEXTO'')]"
    unfolding b survey_types by (simp add: q_nota_texto_def ascii_def)
  have "render_questions decimal_ops decimal_nonzero 10 survey_frame [q_nota_texto, q_empleado] =
      emit [Markdown (ascii ''### Nota''), Info (ascii ''Tipo no soportado: TEXTO'')]
        (render_questions decimal_ops decimal_nonzero 10 survey_frame [q_empleado])"
    using report_dispatch [of q_nota_texto survey_frame decimal_ops decimal_nonzero 10
        "[Markdown (ascii ''### Nota''), Info (ascii ''Tipo no soportado: TEXTO'')]"
        "[q_empleado]"] b'
    by blast
  also have "render_questions decimal_ops decimal_nonzero 10 survey_frame [q_empleado] =
      Inr [Markdown (ascii ''### Empleado''),
           Chart [(ascii ''S'' @ [0xED], 1), (ascii ''No'', 1), ([], 1)]]"
    by (simp add: a' emit_def)
  finally have c: "render_questions decimal_ops decimal_nonzero 10 survey_frame
        [q_nota_texto, q_empleado] =
      Inr [Markdown (ascii ''### Nota''), Info (ascii ''Tipo no soportado: TEXTO''),
           Markdown (ascii ''### Empleado''),
           Chart [(ascii ''S'' @ [0xED], 1), (ascii ''No'', 1), ([], 1)]]"
    by (simp add: emit_def)
  from a' b' c show ?thesis by simp
qed

text \<open>
  The type \<open>texto\<close> is outside the closed set, but the frame has no column
  \<open>Comentarios\<close>: the question gets the missing-column warning and no
  unsupported-type notice.
\<close>

theorem unsupported_type_without_notice:
  "upper (q_type q_comentarios) \<notin> set supported_types \<and>
   render_question decimal_ops decimal_nonzero 10 survey_frame q_comentarios =
     Inr [Warning (ascii ''La columna no existe en los datos: Comentarios'')]"
proof -
  have "render_question decimal_ops decimal_nonzero 10 survey_frame q_comentarios =
      Inr [Warning (ascii ''La columna no existe en los datos: '' @ format_col (q_column q_comentarios))]"
    using survey_types(3,5) survey_columns_present(3) by (simp add: render_question_def)
  moreover have "ascii ''La columna no existe en los datos: '' @ format_col (q_column q_comentarios) =
      ascii ''La columna no existe en los datos: Comentarios''"
    by (simp add: q_comentarios_def format_col_def ascii_def)
  ultimately show ?thesis using survey_types(3,4) by simp
qed

end
